theory Spec2Isabelle
  imports Main "HOL-Library.Multiset" "HOL-Library.Word"
begin

section \<open>Strings\<close>

text \<open>
  A JavaScript string is the sequence of its UTF-16 code units, and \<open>length\<close> counts
  code units as \<open>String.prototype.length\<close> does. \<open>js\<close> turns an ASCII literal of the
  program into such a string.
\<close>

type_synonym code_unit = "16 word"

type_synonym jstring = "code_unit list"

definition js :: "string \<Rightarrow> jstring" where
  "js s = map (\<lambda>c. of_nat (of_char c)) s"

text \<open>
  \<open>String.prototype.toLowerCase\<close> is a function of the platform, not of this
  repository: the functions that call it take it as the parameter \<open>toLowerCase\<close>.
  What is known of it is \<open>lowercasing\<close>: lower-casing a lower-cased string changes
  nothing, and on a string of ASCII code units the letters \<open>A\<close> .. \<open>Z\<close> (65 .. 90)
  move to \<open>a\<close> .. \<open>z\<close> and every other code unit is kept. Nothing is said of what
  it does to other strings. \<open>ascii_toLowerCase\<close>, which lowers the ASCII letters of
  any string, is one such function; the examples use it.
\<close>

definition ascii_lower :: "code_unit \<Rightarrow> code_unit" where
  "ascii_lower c = (if 65 \<le> c \<and> c \<le> 90 then c + 32 else c)"

definition ascii_toLowerCase :: "jstring \<Rightarrow> jstring" where
  "ascii_toLowerCase s = map ascii_lower s"

definition lowercasing :: "(jstring \<Rightarrow> jstring) \<Rightarrow> bool" where
  "lowercasing f =
     ((\<forall>s. f (f s) = f s) \<and> (\<forall>s. (\<forall>c\<in>set s. c < 128) \<longrightarrow> f s = map ascii_lower s))"

text \<open>\<open>Number.prototype.toString\<close> on a non-negative integer: its decimal digits.\<close>

definition digit_char :: "nat \<Rightarrow> code_unit" where
  "digit_char d = 48 + of_nat d"

function toString :: "nat \<Rightarrow> jstring" where
  "toString n =
     (if n < 10 then [digit_char n] else toString (n div 10) @ [digit_char (n mod 10)])"
  by pat_completeness auto
termination
  by (relation "measure (\<lambda>n. n)") auto

declare toString.simps [simp del]

section \<open>Data model (app/types/auth.ts, app/types/movie.ts, app/types/tv.ts)\<close>

record preferences =
  notifications :: bool
  darkMode :: bool
  language :: jstring

record User =
  u_id :: jstring
  u_email :: jstring
  u_name :: jstring
  u_avatar :: "jstring option"
  u_createdAt :: jstring
  u_preferences :: preferences

record AuthState =
  isAuthenticated :: bool
  user :: "User option"
  isLoading :: bool

record LoginCredentials =
  l_email :: jstring
  l_password :: jstring

record RegisterCredentials =
  r_name :: jstring
  r_email :: jstring
  r_password :: jstring
  r_confirmPassword :: jstring

text \<open>
  \<open>Partial<User>\<close>: every field may be absent. A present \<open>avatar\<close> may itself be
  \<open>undefined\<close>, hence the nested option.
\<close>

record PartialUser =
  p_id :: "jstring option"
  p_email :: "jstring option"
  p_name :: "jstring option"
  p_avatar :: "jstring option option"
  p_createdAt :: "jstring option"
  p_preferences :: "preferences option"

datatype media = movie | tv

record Genre =
  g_id :: int
  g_name :: jstring

text \<open>
  One watchlist entry: the \<open>ContentItem\<close> / \<open>WatchlistItem\<close> view of a stored object
  (\<open>Movie\<close> extended by the optional \<open>media_type\<close> and \<open>name\<close>). A TV show has a
  \<open>name\<close> and no \<open>title\<close>, so \<open>title\<close> is optional in the stored object. The fields
  that are only displayed (overview, poster path, dates, votes) are left out.
\<close>

record item =
  i_id :: int
  i_title :: "jstring option"
  i_name :: "jstring option"
  i_media_type :: "media option"
  i_genre_ids :: "int list option"
  i_genres :: "Genre list option"

section \<open>Errors, notifications, persisted texts\<close>

text \<open>
  \<open>Error m\<close> is \<open>new Error(m)\<close> thrown by the application; \<open>SyntaxError\<close> is thrown by
  \<open>JSON.parse\<close>, \<open>TypeError\<close> by a property access on a value of the wrong shape;
  \<open>StorageError\<close> is the rejection of an \<open>AsyncStorage\<close> call.
\<close>

datatype error = Error string | SyntaxError | TypeError | StorageError

text \<open>
  What the user is shown. \<open>AlertError title e\<close> is
  \<open>Alert.alert(title, e instanceof Error ? e.message : 'An error occurred')\<close>,
  \<open>AlertText title message\<close> is \<open>Alert.alert(title, message)\<close> and
  \<open>Toast type text1 text2\<close> is \<open>Toast.show({type, text1, text2, ...})\<close>.
\<close>

datatype notice =
    AlertError string error
  | AlertText string string
  | Toast string string jstring

text \<open>
  A value of the key/value store is a text, and \<open>getItem\<close> gives back the text last
  stored. \<open>UsersJson us\<close>, \<open>UserJson u\<close> and \<open>ItemsJson xs\<close> are the texts
  \<open>JSON.stringify\<close> produces for a user array, one user and an entry array, and
  \<open>JSON.parse\<close> gives the document back from its text. \<open>Raw s\<close> is a text stored as
  it is: under a password key the password, under any other key a value that is no JSON
  document, on which \<open>JSON.parse\<close> throws. A reader that meets a document of another
  shape than the one it expects is modelled as throwing as well; the application never
  writes such a document under a key of another shape.
\<close>

datatype stored =
    Raw jstring
  | UsersJson "User list"
  | UserJson User
  | ItemsJson "item list"

text \<open>
  The world: the reducer state held by \<open>AuthProvider\<close>, the contents of
  \<open>AsyncStorage\<close>, the outcome of the storage calls still to come (\<open>True\<close>: the call
  rejects; an exhausted list means that no further call rejects), the clock, and the
  notifications shown so far.
\<close>

record world =
  authState :: AuthState
  disk :: "jstring \<rightharpoonup> stored"
  faults :: "bool list"
  now :: nat
  now_iso :: jstring
  notices :: "notice list"

type_synonym 'a async = "world \<Rightarrow> (error + 'a) \<times> world"

definition resolve :: "'a \<Rightarrow> 'a async" where
  "resolve x w = (Inr x, w)"

definition throw :: "error \<Rightarrow> 'a async" where
  "throw e w = (Inl e, w)"

text \<open>\<open>await m; f\<close>: a rejection of \<open>m\<close> skips \<open>f\<close>.\<close>

definition await :: "'a async \<Rightarrow> ('a \<Rightarrow> 'b async) \<Rightarrow> 'b async" where
  "await m f w = (case m w of (Inl e, w') \<Rightarrow> (Inl e, w') | (Inr x, w') \<Rightarrow> f x w')"

text \<open>\<open>try { m } catch (error) { h error }\<close>\<close>

definition try_catch :: "'a async \<Rightarrow> (error \<Rightarrow> 'a async) \<Rightarrow> 'a async" where
  "try_catch m h w = (case m w of (Inl e, w') \<Rightarrow> h e w' | (Inr x, w') \<Rightarrow> (Inr x, w'))"

definition liftE :: "error + 'a \<Rightarrow> 'a async" where
  "liftE r w = (r, w)"

subsection \<open>AsyncStorage\<close>

definition next_call :: "world \<Rightarrow> bool \<times> world" where
  "next_call w = (case faults w of [] \<Rightarrow> (False, w) | b # bs \<Rightarrow> (b, w\<lparr>faults := bs\<rparr>))"

definition getItem :: "jstring \<Rightarrow> stored option async" where
  "getItem k w =
     (case next_call w of
        (True, w') \<Rightarrow> (Inl StorageError, w')
      | (False, w') \<Rightarrow> (Inr (disk w' k), w'))"

definition setItem :: "jstring \<Rightarrow> stored \<Rightarrow> unit async" where
  "setItem k v w =
     (case next_call w of
        (True, w') \<Rightarrow> (Inl StorageError, w')
      | (False, w') \<Rightarrow> (Inr (), w'\<lparr>disk := (disk w')(k \<mapsto> v)\<rparr>))"

definition removeItem :: "jstring \<Rightarrow> unit async" where
  "removeItem k w =
     (case next_call w of
        (True, w') \<Rightarrow> (Inl StorageError, w')
      | (False, w') \<Rightarrow> (Inr (), w'\<lparr>disk := (disk w')(k := None)\<rparr>))"

definition show_notice :: "notice \<Rightarrow> unit async" where
  "show_notice n w = (Inr (), w\<lparr>notices := notices w @ [n]\<rparr>)"

text \<open>
  \<open>data ? JSON.parse(data) : []\<close> read as a user array: an absent key (\<open>null\<close>) and the
  empty text are falsy.
\<close>

fun JSON_parse_users :: "stored \<Rightarrow> error + User list" where
  "JSON_parse_users (UsersJson us) = Inr us"
| "JSON_parse_users (Raw s) = Inl SyntaxError"
| "JSON_parse_users (UserJson u) = Inl TypeError"
| "JSON_parse_users (ItemsJson xs) = Inl TypeError"

fun falsy :: "stored option \<Rightarrow> bool" where
  "falsy None = True"
| "falsy (Some (Raw s)) = (s = [])"
| "falsy (Some t) = False"

definition users_or_empty :: "stored option \<Rightarrow> error + User list" where
  "users_or_empty data = (if falsy data then Inr [] else JSON_parse_users (the data))"

section \<open>Session store (app/contexts/AuthContext.tsx)\<close>

definition AUTH_STORAGE_KEY :: jstring where
  "AUTH_STORAGE_KEY = js ''auth_user''"

definition USERS_STORAGE_KEY :: jstring where
  "USERS_STORAGE_KEY = js ''registered_users''"

definition password_key :: "jstring \<Rightarrow> jstring" where
  "password_key uid = js ''password_'' @ uid"

datatype AuthAction =
    SET_LOADING bool
  | LOGIN_SUCCESS User
  | LOGOUT
  | UPDATE_USER PartialUser

definition merge_user :: "User \<Rightarrow> PartialUser \<Rightarrow> User" where
  "merge_user u p =
     \<lparr> u_id = (case p_id p of None \<Rightarrow> u_id u | Some x \<Rightarrow> x),
       u_email = (case p_email p of None \<Rightarrow> u_email u | Some x \<Rightarrow> x),
       u_name = (case p_name p of None \<Rightarrow> u_name u | Some x \<Rightarrow> x),
       u_avatar = (case p_avatar p of None \<Rightarrow> u_avatar u | Some x \<Rightarrow> x),
       u_createdAt = (case p_createdAt p of None \<Rightarrow> u_createdAt u | Some x \<Rightarrow> x),
       u_preferences = (case p_preferences p of None \<Rightarrow> u_preferences u | Some x \<Rightarrow> x) \<rparr>"

fun authReducer :: "AuthState \<Rightarrow> AuthAction \<Rightarrow> AuthState" where
  "authReducer state (SET_LOADING b) = state\<lparr>isLoading := b\<rparr>"
| "authReducer state (LOGIN_SUCCESS u) =
     state\<lparr>isAuthenticated := True, user := Some u, isLoading := False\<rparr>"
| "authReducer state LOGOUT =
     state\<lparr>isAuthenticated := False, user := None, isLoading := False\<rparr>"
| "authReducer state (UPDATE_USER p) =
     state\<lparr>user := (case user state of Some u \<Rightarrow> Some (merge_user u p) | None \<Rightarrow> None)\<rparr>"

definition initialState :: AuthState where
  "initialState = \<lparr>isAuthenticated = False, user = None, isLoading = True\<rparr>"

definition dispatch :: "AuthAction \<Rightarrow> unit async" where
  "dispatch a w = (Inr (), w\<lparr>authState := authReducer (authState w) a\<rparr>)"

definition default_preferences :: preferences where
  "default_preferences = \<lparr>notifications = True, darkMode = True, language = js ''en''\<rparr>"

definition same_email :: "(jstring \<Rightarrow> jstring) \<Rightarrow> jstring \<Rightarrow> User \<Rightarrow> bool" where
  "same_email toLowerCase e u = (toLowerCase (u_email u) = toLowerCase e)"

definition login_try :: "(jstring \<Rightarrow> jstring) \<Rightarrow> LoginCredentials \<Rightarrow> unit async" where
  "login_try toLowerCase credentials =
     await (dispatch (SET_LOADING True)) (\<lambda>_.
     await (getItem USERS_STORAGE_KEY) (\<lambda>usersData.
     await (liftE (users_or_empty usersData)) (\<lambda>users.
     case find (same_email toLowerCase (l_email credentials)) users of
       None \<Rightarrow> throw (Error ''User not found. Please register first.'')
     | Some u \<Rightarrow>
         await (getItem (password_key (u_id u))) (\<lambda>storedPassword.
         if storedPassword \<noteq> Some (Raw (l_password credentials))
         then throw (Error ''Invalid password'')
         else
           await (setItem AUTH_STORAGE_KEY (UserJson u)) (\<lambda>_.
           dispatch (LOGIN_SUCCESS u))))))"

definition login :: "(jstring \<Rightarrow> jstring) \<Rightarrow> LoginCredentials \<Rightarrow> unit async" where
  "login toLowerCase credentials =
     try_catch (login_try toLowerCase credentials) (\<lambda>e.
       await (dispatch (SET_LOADING False)) (\<lambda>_.
       await (show_notice (AlertError ''Login Failed'' e)) (\<lambda>_.
       throw e)))"

definition new_user ::
    "(jstring \<Rightarrow> jstring) \<Rightarrow> RegisterCredentials \<Rightarrow> world \<Rightarrow> User" where
  "new_user toLowerCase credentials w =
     \<lparr> u_id = toString (now w),
       u_email = toLowerCase (r_email credentials),
       u_name = r_name credentials,
       u_avatar = None,
       u_createdAt = now_iso w,
       u_preferences = default_preferences \<rparr>"

definition register_try ::
    "(jstring \<Rightarrow> jstring) \<Rightarrow> RegisterCredentials \<Rightarrow> unit async" where
  "register_try toLowerCase credentials =
     await (dispatch (SET_LOADING True)) (\<lambda>_.
     if r_password credentials \<noteq> r_confirmPassword credentials
     then throw (Error ''Passwords do not match'')
     else if length (r_password credentials) < 6
     then throw (Error ''Password must be at least 6 characters'')
     else
       await (getItem USERS_STORAGE_KEY) (\<lambda>usersData.
       await (liftE (users_or_empty usersData)) (\<lambda>users.
       case find (same_email toLowerCase (r_email credentials)) users of
         Some existingUser \<Rightarrow> throw (Error ''Email already registered'')
       | None \<Rightarrow> (\<lambda>w.
           (let newUser = new_user toLowerCase credentials w in
            await (setItem USERS_STORAGE_KEY (UsersJson (users @ [newUser]))) (\<lambda>_.
            await (setItem (password_key (u_id newUser)) (Raw (r_password credentials))) (\<lambda>_.
            await (setItem AUTH_STORAGE_KEY (UserJson newUser)) (\<lambda>_.
            dispatch (LOGIN_SUCCESS newUser))))) w))))"

definition register :: "(jstring \<Rightarrow> jstring) \<Rightarrow> RegisterCredentials \<Rightarrow> unit async" where
  "register toLowerCase credentials =
     try_catch (register_try toLowerCase credentials) (\<lambda>e.
       await (dispatch (SET_LOADING False)) (\<lambda>_.
       await (show_notice (AlertError ''Registration Failed'' e)) (\<lambda>_.
       throw e)))"

definition logout :: "unit async" where
  "logout =
     try_catch
       (await (removeItem AUTH_STORAGE_KEY) (\<lambda>_. dispatch LOGOUT))
       (\<lambda>e. show_notice (AlertText ''Error'' ''Failed to logout''))"

text \<open>
  \<open>users[userIndex] = updatedUser\<close> for the first index whose user has the id of the
  session user; \<open>None\<close> is \<open>findIndex\<close> returning \<open>-1\<close>.
\<close>

fun findIndex :: "('a \<Rightarrow> bool) \<Rightarrow> 'a list \<Rightarrow> nat option" where
  "findIndex P [] = None"
| "findIndex P (x # xs) =
     (if P x then Some 0 else map_option Suc (findIndex P xs))"

definition updateUser :: "PartialUser \<Rightarrow> unit async" where
  "updateUser userData w =
     try_catch
       (case user (authState w) of
          None \<Rightarrow> resolve ()
        | Some current \<Rightarrow>
            (let updatedUser = merge_user current userData in
             await (setItem AUTH_STORAGE_KEY (UserJson updatedUser)) (\<lambda>_.
             await (getItem USERS_STORAGE_KEY) (\<lambda>usersData.
             await (liftE (users_or_empty usersData)) (\<lambda>users.
             await
               (case findIndex (\<lambda>u. u_id u = u_id current) users of
                  None \<Rightarrow> resolve ()
                | Some userIndex \<Rightarrow>
                    setItem USERS_STORAGE_KEY (UsersJson (users[userIndex := updatedUser])))
               (\<lambda>_. dispatch (UPDATE_USER userData)))))))
       (\<lambda>e. show_notice (AlertText ''Error'' ''Failed to update profile''))
       w"

text \<open>The error classes of the specification, read off the thrown messages.\<close>

definition ValidationError :: "error \<Rightarrow> bool" where
  "ValidationError e =
     (e = Error ''Passwords do not match'' \<or> e = Error ''Password must be at least 6 characters'')"

definition ConflictError :: "error \<Rightarrow> bool" where
  "ConflictError e = (e = Error ''Email already registered'')"

definition NotFoundError :: "error \<Rightarrow> bool" where
  "NotFoundError e = (e = Error ''User not found. Please register first.'')"

definition InvalidCredentialError :: "error \<Rightarrow> bool" where
  "InvalidCredentialError e = (e = Error ''Invalid password'')"

section \<open>Watchlist store\<close>

text \<open>
  \<open>data ? JSON.parse(data) : []\<close> read as an entry array, and the entries found in a
  text by \<open>JSON.parse\<close> alone.
\<close>

fun JSON_parse_items :: "stored \<Rightarrow> error + item list" where
  "JSON_parse_items (ItemsJson xs) = Inr xs"
| "JSON_parse_items (Raw s) = Inl SyntaxError"
| "JSON_parse_items (UsersJson us) = Inl TypeError"
| "JSON_parse_items (UserJson u) = Inl TypeError"

definition items_or_empty :: "stored option \<Rightarrow> error + item list" where
  "items_or_empty data = (if falsy data then Inr [] else JSON_parse_items (the data))"

text \<open>\<open>{ ...item, media_type: m }\<close>\<close>

definition tagged :: "media \<Rightarrow> item \<Rightarrow> item" where
  "tagged m x = x\<lparr>i_media_type := Some m\<rparr>"

text \<open>A template literal prints an absent property as \<open>undefined\<close>.\<close>

definition shown :: "jstring option \<Rightarrow> jstring" where
  "shown t = (case t of None \<Rightarrow> js ''undefined'' | Some s \<Rightarrow> s)"

subsection \<open>WatchlistScreen (app/(tabs)/watchlist.tsx)\<close>

text \<open>\<open>'all' | 'movies' | 'tv'\<close>; the last is written \<open>tv_shows\<close> here.\<close>

datatype WatchlistType = all | movies | tv_shows

record WatchlistScreen =
  watchlist :: "item list"
  loading :: bool
  activeWatchlistType :: WatchlistType

text \<open>\<open>Promise.all([a, b])\<close>: both calls are issued; a rejection of either rejects.\<close>

definition Promise_all2 :: "'a async \<Rightarrow> 'b async \<Rightarrow> ('a \<times> 'b) async" where
  "Promise_all2 a b w =
     (case a w of (ra, w1) \<Rightarrow>
      case b w1 of (rb, w2) \<Rightarrow>
        (case ra of
           Inl e \<Rightarrow> (Inl e, w2)
         | Inr x \<Rightarrow> (case rb of Inl e \<Rightarrow> (Inl e, w2) | Inr y \<Rightarrow> (Inr (x, y), w2))))"

definition loadWatchlist_try :: "item list async" where
  "loadWatchlist_try =
     await (Promise_all2 (getItem (js ''watchlist'')) (getItem (js ''tvWatchlist'')))
       (\<lambda>(movieWatchlistData, tvWatchlistData).
     await (liftE (items_or_empty movieWatchlistData)) (\<lambda>movieList.
     await (liftE (items_or_empty tvWatchlistData)) (\<lambda>tvList.
     resolve (map (tagged movie) movieList @ map (tagged tv) tvList))))"

definition loadWatchlist :: "WatchlistScreen \<Rightarrow> world \<Rightarrow> WatchlistScreen \<times> world" where
  "loadWatchlist s w =
     (case loadWatchlist_try w of
        (Inr xs, w') \<Rightarrow> (s\<lparr>watchlist := xs, loading := False\<rparr>, w')
      | (Inl e, w') \<Rightarrow> (s\<lparr>loading := False\<rparr>, w'))"

definition filteredWatchlist :: "WatchlistScreen \<Rightarrow> item list" where
  "filteredWatchlist s =
     filter (\<lambda>x. case activeWatchlistType s of
                    all \<Rightarrow> True
                  | movies \<Rightarrow> i_media_type x = Some movie
                  | tv_shows \<Rightarrow> i_media_type x = Some tv)
            (watchlist s)"

definition watchlistKey :: "media \<Rightarrow> jstring" where
  "watchlistKey mediaType = (if mediaType = movie then (js ''watchlist'') else (js ''tvWatchlist''))"

text \<open>The \<open>Remove\<close> button of the confirmation dialog of \<open>removeFromWatchlist\<close>.\<close>

definition removeFromWatchlist ::
    "int \<Rightarrow> media \<Rightarrow> WatchlistScreen \<Rightarrow> world \<Rightarrow> WatchlistScreen \<times> world" where
  "removeFromWatchlist ident mediaType s w =
     (case await (getItem (watchlistKey mediaType)) (\<lambda>currentWatchlistData.
           await (liftE (items_or_empty currentWatchlistData)) (\<lambda>currentWatchlist.
           setItem (watchlistKey mediaType)
             (ItemsJson (filter (\<lambda>x. i_id x \<noteq> ident) currentWatchlist)))) w of
        (Inr _, w') \<Rightarrow>
          (s\<lparr>watchlist :=
               filter (\<lambda>x. \<not> (i_id x = ident \<and> i_media_type x = Some mediaType)) (watchlist s)\<rparr>,
           w')
      | (Inl e, w') \<Rightarrow>
          (s, snd (show_notice (AlertText ''Error'' ''Failed to remove item from watchlist'') w')))"

text \<open>The \<open>Clear All\<close> button of the confirmation dialog of \<open>clearWatchlist\<close>.\<close>

definition clearWatchlist :: "WatchlistScreen \<Rightarrow> world \<Rightarrow> WatchlistScreen \<times> world" where
  "clearWatchlist s w =
     (let t = activeWatchlistType s in
      case await (if t = all \<or> t = movies then removeItem (js ''watchlist'') else resolve ()) (\<lambda>_.
                 (if t = all \<or> t = tv_shows then removeItem (js ''tvWatchlist'') else resolve ())) w of
        (Inr _, w') \<Rightarrow>
          (case t of
             all \<Rightarrow> s\<lparr>watchlist := []\<rparr>
           | movies \<Rightarrow> s\<lparr>watchlist := filter (\<lambda>x. i_media_type x = Some tv) (watchlist s)\<rparr>
           | tv_shows \<Rightarrow> s\<lparr>watchlist := filter (\<lambda>x. i_media_type x = Some movie) (watchlist s)\<rparr>,
           w')
      | (Inl e, w') \<Rightarrow>
          (s, snd (show_notice (AlertText ''Error'' ''Failed to clear watchlist'') w')))"

subsection \<open>Membership flag and toggle of the detail screens and of MovieCard\<close>

text \<open>
  The three components (\<open>MovieDetailScreen\<close>, \<open>TVShowDetailScreen\<close>, \<open>MovieCard\<close>)
  carry the same two functions, which differ in the key, in the shown title and in the
  object that is pushed. Each component keeps its own flag \<open>isInWatchlist\<close>; the
  functions take the current flag and return the new one.
\<close>

definition checkWatchlistStatus_at :: "jstring \<Rightarrow> int \<Rightarrow> bool \<Rightarrow> world \<Rightarrow> bool \<times> world" where
  "checkWatchlistStatus_at key ident isInWatchlist w =
     (case getItem key w of
        (Inl e, w') \<Rightarrow> (isInWatchlist, w')
      | (Inr data, w') \<Rightarrow>
          (if falsy data then (isInWatchlist, w')
           else case JSON_parse_items (the data) of
                  Inl e \<Rightarrow> (isInWatchlist, w')
                | Inr watchlistArray \<Rightarrow> (list_ex (\<lambda>x. i_id x = ident) watchlistArray, w')))"

definition toggleWatchlist_try ::
    "jstring \<Rightarrow> int \<Rightarrow> item \<Rightarrow> jstring \<Rightarrow> bool \<Rightarrow> unit async" where
  "toggleWatchlist_try key ident itemToAdd title isInWatchlist =
     await (getItem key) (\<lambda>data.
     await (liftE (items_or_empty data)) (\<lambda>watchlistArray.
     if isInWatchlist
     then
       await (show_notice (Toast ''success'' ''Removed from Watchlist''
                (title @ js '' has been removed from your watchlist''))) (\<lambda>_.
       setItem key (ItemsJson (filter (\<lambda>x. i_id x \<noteq> ident) watchlistArray)))
     else
       await (show_notice (Toast ''success'' ''Added to Watchlist''
                (title @ js '' has been added to your watchlist''))) (\<lambda>_.
       setItem key (ItemsJson (watchlistArray @ [itemToAdd])))))"

definition toggleWatchlist_at ::
    "jstring \<Rightarrow> int \<Rightarrow> item \<Rightarrow> jstring \<Rightarrow> bool \<Rightarrow> world \<Rightarrow> bool \<times> world" where
  "toggleWatchlist_at key ident itemToAdd title isInWatchlist w =
     (case toggleWatchlist_try key ident itemToAdd title isInWatchlist w of
        (Inr _, w') \<Rightarrow> (\<not> isInWatchlist, w')
      | (Inl e, w') \<Rightarrow>
          (isInWatchlist, snd (show_notice (Toast ''error'' ''Error'' (js ''Failed to update watchlist'')) w')))"

text \<open>\<open>MovieDetailScreen\<close>: key \<open>watchlist\<close>, the loaded movie is pushed as it is.\<close>

definition checkWatchlistStatus_MovieDetailScreen :: "int \<Rightarrow> bool \<Rightarrow> world \<Rightarrow> bool \<times> world" where
  "checkWatchlistStatus_MovieDetailScreen ident = checkWatchlistStatus_at (js ''watchlist'') ident"

definition toggleWatchlist_MovieDetailScreen :: "item \<Rightarrow> bool \<Rightarrow> world \<Rightarrow> bool \<times> world" where
  "toggleWatchlist_MovieDetailScreen m =
     toggleWatchlist_at (js ''watchlist'') (i_id m) m (shown (i_title m))"

text \<open>\<open>TVShowDetailScreen\<close>: key \<open>tvWatchlist\<close>, the show is pushed tagged \<open>tv\<close>.\<close>

definition checkWatchlistStatus_TVShowDetailScreen :: "int \<Rightarrow> bool \<Rightarrow> world \<Rightarrow> bool \<times> world" where
  "checkWatchlistStatus_TVShowDetailScreen ident = checkWatchlistStatus_at (js ''tvWatchlist'') ident"

definition toggleWatchlist_TVShowDetailScreen :: "item \<Rightarrow> bool \<Rightarrow> world \<Rightarrow> bool \<times> world" where
  "toggleWatchlist_TVShowDetailScreen tvShow =
     toggleWatchlist_at (js ''tvWatchlist'') (i_id tvShow) (tagged tv tvShow) (shown (i_name tvShow))"

text \<open>
  \<open>MovieCard\<close>: the key follows \<open>isTV\<close>, the card's item is pushed tagged with its
  kind; the title of a TV show is \<open>movie.name || movie.title\<close>.
\<close>

definition isTV :: "item \<Rightarrow> bool" where
  "isTV m = (i_media_type m = Some tv)"

definition card_key :: "item \<Rightarrow> jstring" where
  "card_key m = (if isTV m then (js ''tvWatchlist'') else (js ''watchlist''))"

definition card_title :: "item \<Rightarrow> jstring" where
  "card_title m =
     (if isTV m
      then (if i_name m = None \<or> i_name m = Some [] then shown (i_title m) else shown (i_name m))
      else shown (i_title m))"

definition checkWatchlistStatus_MovieCard :: "item \<Rightarrow> bool \<Rightarrow> world \<Rightarrow> bool \<times> world" where
  "checkWatchlistStatus_MovieCard m = checkWatchlistStatus_at (card_key m) (i_id m)"

definition toggleWatchlist_MovieCard :: "item \<Rightarrow> bool \<Rightarrow> world \<Rightarrow> bool \<times> world" where
  "toggleWatchlist_MovieCard m =
     toggleWatchlist_at (card_key m) (i_id m)
       (if isTV m then tagged tv m else tagged movie m) (card_title m)"

subsection \<open>ProfileScreen: watchlist statistics (loadProfileData)\<close>

text \<open>
  \<open>genres\<close> is a plain object used as a dictionary from genre names to counts. A
  name that \<open>Object.prototype\<close> defines is found on a fresh object although it was
  never counted: \<open>(genres[name] || 0) + 1\<close> is then a string, not a number, written
  \<open>NotANumber\<close>, and stays one; an assignment to \<open>__proto__\<close> of a string is ignored.
\<close>

datatype tally = Count nat | NotANumber

record ProfileStats =
  totalMovies :: nat
  genres :: "jstring \<rightharpoonup> tally"
  totalRuntime :: nat

definition no_stats :: ProfileStats where
  "no_stats = \<lparr>totalMovies = 0, genres = Map.empty, totalRuntime = 0\<rparr>"

definition genreMap :: "(int \<times> jstring) list" where
  "genreMap =
     [(28, js ''Action''), (12, js ''Adventure''), (16, js ''Animation''), (35, js ''Comedy''),
      (80, js ''Crime''), (99, js ''Documentary''), (18, js ''Drama''), (10751, js ''Family''),
      (14, js ''Fantasy''), (36, js ''History''), (27, js ''Horror''), (10402, js ''Music''),
      (9648, js ''Mystery''), (10749, js ''Romance''), (878, js ''Science Fiction''),
      (10770, js ''TV Movie''), (53, js ''Thriller''), (10752, js ''War''),
      (37, js ''Western'')]"

definition getGenreName :: "int \<Rightarrow> jstring" where
  "getGenreName genreId =
     (case map_of genreMap genreId of None \<Rightarrow> js ''Unknown'' | Some n \<Rightarrow> n)"

definition Object_prototype_names :: "jstring list" where
  "Object_prototype_names =
     map js [''constructor'', ''hasOwnProperty'', ''isPrototypeOf'', ''propertyIsEnumerable'',
             ''toLocaleString'', ''toString'', ''valueOf'', ''__defineGetter__'',
             ''__defineSetter__'', ''__lookupGetter__'', ''__lookupSetter__'']"

definition count_genre :: "jstring \<Rightarrow> (jstring \<rightharpoonup> tally) \<Rightarrow> (jstring \<rightharpoonup> tally)" where
  "count_genre n gs =
     (if n = js ''__proto__'' then gs
      else case gs n of
             Some (Count c) \<Rightarrow> gs(n \<mapsto> Count (c + 1))
           | Some NotANumber \<Rightarrow> gs(n \<mapsto> NotANumber)
           | None \<Rightarrow>
               (if n \<in> set Object_prototype_names then gs(n \<mapsto> NotANumber)
                else gs(n \<mapsto> Count 1)))"

definition movie_genres :: "item \<Rightarrow> jstring list" where
  "movie_genres m =
     (case i_genre_ids m of
        Some ids \<Rightarrow> map getGenreName ids
      | None \<Rightarrow>
          (case i_genres m of
             Some gs \<Rightarrow> filter (\<lambda>n. n \<noteq> []) (map g_name gs)
           | None \<Rightarrow> []))"

definition calculateStats :: "item list \<Rightarrow> ProfileStats" where
  "calculateStats ws =
     \<lparr> totalMovies = length ws,
       genres = fold count_genre (concat (map movie_genres ws)) Map.empty,
       totalRuntime = 120 * length ws \<rparr>"

text \<open>\<open>movie && typeof movie === 'object' && movie.id && movie.title\<close>\<close>

definition valid_movie :: "item \<Rightarrow> bool" where
  "valid_movie m = (i_id m \<noteq> 0 \<and> i_title m \<noteq> None \<and> i_title m \<noteq> Some [])"

record ProfileScreen =
  watchlistStats :: ProfileStats
  ps_loading :: bool

text \<open>
  The inner \<open>try\<close> of \<open>loadProfileData\<close>: a user array is an array none of whose
  elements has a \<open>title\<close>; a single user is not an array.
\<close>

definition loadProfileData_inner :: "stored \<Rightarrow> ProfileStats async" where
  "loadProfileData_inner watchlistData =
     try_catch
       (case watchlistData of
          Raw s \<Rightarrow> throw SyntaxError
        | ItemsJson xs \<Rightarrow> resolve (calculateStats (filter valid_movie xs))
        | UsersJson us \<Rightarrow> resolve (calculateStats [])
        | UserJson u \<Rightarrow> await (removeItem (js ''watchlist'')) (\<lambda>_. resolve no_stats))
       (\<lambda>parseError. await (removeItem (js ''watchlist'')) (\<lambda>_. resolve no_stats))"

definition loadProfileData :: "ProfileScreen \<Rightarrow> world \<Rightarrow> ProfileScreen \<times> world" where
  "loadProfileData s w =
     (case await (getItem (js ''watchlist'')) (\<lambda>watchlistData.
           if falsy watchlistData then resolve no_stats
           else loadProfileData_inner (the watchlistData)) w of
        (Inr stats, w') \<Rightarrow> (s\<lparr>watchlistStats := stats, ps_loading := False\<rparr>, w')
      | (Inl e, w') \<Rightarrow> (s\<lparr>watchlistStats := no_stats, ps_loading := False\<rparr>, w'))"

section \<open>Example states\<close>

definition fresh_install :: world where
  "fresh_install =
     \<lparr> authState = \<lparr>isAuthenticated = False, user = None, isLoading = False\<rparr>,
       disk = Map.empty, faults = [], now = 1700000000000,
       now_iso = (js ''2023-11-14T22:13:20.000Z''), notices = [] \<rparr>"

definition ann :: User where
  "ann = \<lparr> u_id = (js ''1690000000000''), u_email = (js ''ann@x.com''), u_name = (js ''Ann''), u_avatar = None,
           u_createdAt = (js ''2023-07-22T04:26:40.000Z''), u_preferences = default_preferences \<rparr>"

definition ann_installed :: world where
  "ann_installed =
     fresh_install\<lparr>disk := [USERS_STORAGE_KEY \<mapsto> UsersJson [ann],
                             password_key (u_id ann) \<mapsto> Raw (js ''secret1'')]\<rparr>"

definition ann_again :: RegisterCredentials where
  "ann_again = \<lparr>r_name = (js ''Ann''), r_email = (js ''ANN@x.com''), r_password = (js ''secret2''),
                 r_confirmPassword = (js ''secret2'')\<rparr>"

definition ann_signup :: RegisterCredentials where
  "ann_signup = \<lparr>r_name = (js ''Ann''), r_email = (js ''Ann@X.com''), r_password = (js ''secret1''),
                 r_confirmPassword = (js ''secret1'')\<rparr>"

definition movie5 :: item where
  "movie5 = \<lparr>i_id = 5, i_title = Some (js ''Five''), i_name = None, i_media_type = Some movie,
             i_genre_ids = Some [28], i_genres = None\<rparr>"

definition show5 :: item where
  "show5 = \<lparr>i_id = 5, i_title = None, i_name = Some (js ''Five, the series''), i_media_type = Some tv,
            i_genre_ids = Some [18], i_genres = None\<rparr>"

definition both5 :: world where
  "both5 = fresh_install\<lparr>disk := [(js ''watchlist'') \<mapsto> ItemsJson [movie5],
                                   (js ''tvWatchlist'') \<mapsto> ItemsJson [show5]]\<rparr>"

definition all_tab :: WatchlistScreen where
  "all_tab = \<lparr>watchlist = [], loading = True, activeWatchlistType = all\<rparr>"

text \<open>Movie 42 as a result of the content API (on a card) and as loaded by the detail screen.\<close>

definition popular42 :: item where
  "popular42 = \<lparr>i_id = 42, i_title = Some (js ''X''), i_name = None, i_media_type = None,
                i_genre_ids = Some [28], i_genres = None\<rparr>"

definition details42 :: item where
  "details42 = \<lparr>i_id = 42, i_title = Some (js ''X''), i_name = None, i_media_type = None,
                i_genre_ids = None, i_genres = Some [\<lparr>g_id = 28, g_name = (js ''Action'')\<rparr>]\<rparr>"

definition saved_from_card :: world where
  "saved_from_card = fresh_install\<lparr>disk := [(js ''watchlist'') \<mapsto> ItemsJson [tagged movie popular42]]\<rparr>"

definition saved_from_details :: world where
  "saved_from_details = fresh_install\<lparr>disk := [(js ''watchlist'') \<mapsto> ItemsJson [movie5, details42]]\<rparr>"

definition corrupt_watchlist :: world where
  "corrupt_watchlist = fresh_install\<lparr>disk := [js ''watchlist'' \<mapsto> Raw (js ''not json'')]\<rparr>"

definition third_call_rejects :: "world \<Rightarrow> world" where
  "third_call_rejects w = w\<lparr>faults := [False, False, True]\<rparr>"

definition second_call_rejects :: "world \<Rightarrow> world" where
  "second_call_rejects w = w\<lparr>faults := [False, True]\<rparr>"

definition ann_signed_in :: world where
  "ann_signed_in =
     ann_installed\<lparr>authState := \<lparr>isAuthenticated = True, user = Some ann, isLoading = False\<rparr>,
                   disk := (disk ann_installed)(AUTH_STORAGE_KEY \<mapsto> UserJson ann)\<rparr>"

definition rename_to_anna :: PartialUser where
  "rename_to_anna = \<lparr>p_id = None, p_email = None, p_name = Some (js ''Anna''), p_avatar = None,
                      p_createdAt = None, p_preferences = None\<rparr>"

definition ann_login :: LoginCredentials where
  "ann_login = \<lparr>l_email = (js ''ann@x.com''), l_password = (js ''secret1'')\<rparr>"

definition fresh_profile :: ProfileScreen where
  "fresh_profile = \<lparr>watchlistStats = no_stats, ps_loading = True\<rparr>"

definition ann_mistyped :: RegisterCredentials where
  "ann_mistyped = \<lparr>r_name = (js ''Ann''), r_email = (js ''ann@x.com''), r_password = (js ''secret1''),
                    r_confirmPassword = (js ''secret2'')\<rparr>"

definition ann_short :: RegisterCredentials where
  "ann_short = \<lparr>r_name = (js ''Ann''), r_email = (js ''ann@x.com''), r_password = (js ''abc''),
                 r_confirmPassword = (js ''abc'')\<rparr>"

section \<open>Strings, keys and storage calls\<close>

lemma length_js [simp]: "length (js s) = length s"
  by (simp add: js_def)

lemma js_Nil_iff [simp]: "(js s = []) = (s = [])"
  by (simp add: js_def)

lemma of_char_bound: "(of_char c :: nat) < 256"
proof -
  have "(of_char c :: nat) mod 256 < 256" by simp
  then show ?thesis by simp
qed

lemma code_unit_eq_iff:
  "((of_nat (of_char c) :: code_unit) = of_nat (of_char d)) = (c = d)"
proof
  assume "(of_nat (of_char c) :: code_unit) = of_nat (of_char d)"
  then have "unat (of_nat (of_char c) :: code_unit) = unat (of_nat (of_char d) :: code_unit)"
    by simp
  moreover have "(of_char c :: nat) < 65536" "(of_char d :: nat) < 65536"
    using of_char_bound [of c] of_char_bound [of d] by linarith+
  ultimately have "(of_char c :: nat) = of_char d"
    by (simp add: unat_of_nat)
  then show "c = d" by simp
qed simp

lemma js_eq_iff [simp]: "(js a = js b) = (a = b)"
proof -
  have "inj (\<lambda>c. of_nat (of_char c) :: code_unit)"
    by (simp add: inj_on_def code_unit_eq_iff)
  then show ?thesis by (simp add: js_def)
qed

lemma ascii_lower_idem: "ascii_lower (ascii_lower c) = ascii_lower c"
  unfolding ascii_lower_def
  by (auto simp: word_le_nat_alt unat_word_ariths)

lemma lowercasing_ascii: "lowercasing ascii_toLowerCase"
  by (simp add: lowercasing_def ascii_toLowerCase_def ascii_lower_idem)

lemma lowercasing_idem: "lowercasing lc \<Longrightarrow> lc (lc s) = lc s"
  by (simp add: lowercasing_def)

lemma lower_test: "ascii_toLowerCase (js ''ANN@x.com'') = js ''ann@x.com''"
  by (simp add: js_def ascii_toLowerCase_def ascii_lower_def)

lemma lower_test2: "ascii_toLowerCase (js ''ann@x.com'') = js ''ann@x.com''"
  by (simp add: js_def ascii_toLowerCase_def ascii_lower_def)

lemma lower_test3: "ascii_toLowerCase (js ''Ann@X.com'') = js ''ann@x.com''"
  by (simp add: js_def ascii_toLowerCase_def ascii_lower_def)


lemma keys_distinct [simp]:
  "password_key i \<noteq> AUTH_STORAGE_KEY" "password_key i \<noteq> USERS_STORAGE_KEY"
  "AUTH_STORAGE_KEY \<noteq> USERS_STORAGE_KEY"
  "AUTH_STORAGE_KEY \<noteq> password_key i" "USERS_STORAGE_KEY \<noteq> password_key i"
  "USERS_STORAGE_KEY \<noteq> AUTH_STORAGE_KEY"
  by (simp_all add: password_key_def AUTH_STORAGE_KEY_def USERS_STORAGE_KEY_def js_def)

lemma getItem_ok: "faults w = [] \<Longrightarrow> getItem k w = (Inr (disk w k), w)"
  by (simp add: getItem_def next_call_def)

lemma setItem_ok: "faults w = [] \<Longrightarrow> setItem k v w = (Inr (), w\<lparr>disk := (disk w)(k \<mapsto> v)\<rparr>)"
  by (simp add: setItem_def next_call_def)

lemma removeItem_ok: "faults w = [] \<Longrightarrow> removeItem k w = (Inr (), w\<lparr>disk := (disk w)(k := None)\<rparr>)"
  by (simp add: removeItem_def next_call_def)

lemma users_or_empty_doc [simp]: "users_or_empty (Some (UsersJson us)) = Inr us"
  by (simp add: users_or_empty_def)

lemma items_or_empty_doc [simp]: "items_or_empty (Some (ItemsJson xs)) = Inr xs"
  by (simp add: items_or_empty_def)

lemma items_or_empty_absent [simp]: "items_or_empty None = Inr []"
  by (simp add: items_or_empty_def)

lemmas eval_defs = toggleWatchlist_at_def toggleWatchlist_try_def await_def getItem_def setItem_def
  removeItem_def next_call_def liftE_def show_notice_def resolve_def throw_def try_catch_def
  items_or_empty_def checkWatchlistStatus_at_def

section \<open>Session store: registration, login, logout\<close>

lemma register_try_mismatch:
  "r_password c \<noteq> r_confirmPassword c \<Longrightarrow>
   register_try lc c w = (Inl (Error ''Passwords do not match''),
                       w\<lparr>authState := authReducer (authState w) (SET_LOADING True)\<rparr>)"
  by (simp add: register_try_def await_def dispatch_def throw_def)

lemma register_try_short:
  "r_password c = r_confirmPassword c \<Longrightarrow> length (r_password c) < 6 \<Longrightarrow>
   register_try lc c w = (Inl (Error ''Password must be at least 6 characters''),
                       w\<lparr>authState := authReducer (authState w) (SET_LOADING True)\<rparr>)"
  by (simp add: register_try_def await_def dispatch_def throw_def)

lemma register_catch:
  "register_try lc c w = (Inl e, w') \<Longrightarrow>
   register lc c w = (Inl e, w'\<lparr>authState := authReducer (authState w') (SET_LOADING False),
                             notices := notices w' @ [AlertError ''Registration Failed'' e]\<rparr>)"
  by (simp add: register_def try_catch_def await_def dispatch_def throw_def show_notice_def)

lemma register_pass:
  "register_try lc c w = (Inr x, w') \<Longrightarrow> register lc c w = (Inr x, w')"
  by (simp add: register_def try_catch_def)

lemma register_try_conflict:
  assumes "faults w = []" "r_password c = r_confirmPassword c" "6 \<le> length (r_password c)"
    and "users_or_empty (disk w USERS_STORAGE_KEY) = Inr users"
    and "find (same_email lc (r_email c)) users = Some u"
  shows "register_try lc c w = (Inl (Error ''Email already registered''),
                       w\<lparr>authState := authReducer (authState w) (SET_LOADING True)\<rparr>)"
  using assms
  by (simp add: register_try_def await_def dispatch_def throw_def getItem_ok liftE_def)

lemma register_try_ok:
  assumes "faults w = []" "r_password c = r_confirmPassword c" "6 \<le> length (r_password c)"
    and "users_or_empty (disk w USERS_STORAGE_KEY) = Inr users"
    and "find (same_email lc (r_email c)) users = None"
  shows "register_try lc c w =
     (Inr (), w\<lparr>disk := (disk w)(USERS_STORAGE_KEY \<mapsto> UsersJson (users @ [new_user lc c w]),
                              password_key (u_id (new_user lc c w)) \<mapsto> Raw (r_password c),
                              AUTH_STORAGE_KEY \<mapsto> UserJson (new_user lc c w)),
                authState := \<lparr>isAuthenticated = True, user = Some (new_user lc c w), isLoading = False\<rparr>\<rparr>)"
  using assms
  by (simp add: register_try_def await_def dispatch_def throw_def getItem_ok setItem_ok liftE_def
      new_user_def Let_def)

lemma logout_ok:
  "faults w = [] \<Longrightarrow>
   logout w = (Inr (), w\<lparr>disk := (disk w)(AUTH_STORAGE_KEY := None),
                          authState := \<lparr>isAuthenticated = False, user = None, isLoading = False\<rparr>\<rparr>)"
  by (simp add: logout_def try_catch_def await_def dispatch_def removeItem_ok)

lemma login_try_ok:
  assumes "faults w = []"
    and "users_or_empty (disk w USERS_STORAGE_KEY) = Inr users"
    and "find (same_email lc (l_email c)) users = Some u"
    and "disk w (password_key (u_id u)) = Some (Raw (l_password c))"
  shows "login_try lc c w =
     (Inr (), w\<lparr>disk := (disk w)(AUTH_STORAGE_KEY \<mapsto> UserJson u),
                authState := \<lparr>isAuthenticated = True, user = Some u, isLoading = False\<rparr>\<rparr>)"
  using assms
  by (simp add: login_try_def await_def dispatch_def throw_def getItem_ok setItem_ok liftE_def)

lemma login_try_wrong:
  assumes "faults w = []"
    and "users_or_empty (disk w USERS_STORAGE_KEY) = Inr users"
    and "find (same_email lc (l_email c)) users = Some u"
    and "disk w (password_key (u_id u)) \<noteq> Some (Raw (l_password c))"
  shows "login_try lc c w =
     (Inl (Error ''Invalid password''), w\<lparr>authState := authReducer (authState w) (SET_LOADING True)\<rparr>)"
  using assms
  by (simp add: login_try_def await_def dispatch_def throw_def getItem_ok setItem_ok liftE_def)

lemma login_catch:
  "login_try lc c w = (Inl e, w') \<Longrightarrow>
   login lc c w = (Inl e, w'\<lparr>authState := authReducer (authState w') (SET_LOADING False),
                          notices := notices w' @ [AlertError ''Login Failed'' e]\<rparr>)"
  by (simp add: login_def try_catch_def await_def dispatch_def throw_def show_notice_def)

lemma login_pass:
  "login_try lc c w = (Inr x, w') \<Longrightarrow> login lc c w = (Inr x, w')"
  by (simp add: login_def try_catch_def)

lemma find_registered:
  "u \<in> set users \<Longrightarrow> distinct (map (lc \<circ> u_email) users) \<Longrightarrow>
   lc e = lc (u_email u) \<Longrightarrow> find (same_email lc e) users = Some u"
proof (induction users)
  case Nil
  then show ?case by simp
next
  case (Cons a users)
  show ?case
  proof (cases "a = u")
    case True
    with Cons.prems show ?thesis by (simp add: same_email_def)
  next
    case False
    with Cons.prems have "u \<in> set users" by simp
    with Cons.prems have "lc (u_email a) \<noteq> lc (u_email u)"
      by (auto simp: image_iff)
    with Cons \<open>u \<in> set users\<close> show ?thesis by (simp add: same_email_def)
  qed
qed

lemma find_appended:
  "\<forall>u\<in>set users. \<not> P u \<Longrightarrow> P x \<Longrightarrow> find P (users @ [x]) = Some x"
  by (induction users) auto

lemma register_success:
  assumes "faults w = []" and "6 \<le> length password"
    and "users_or_empty (disk w USERS_STORAGE_KEY) = Inr users"
    and "\<forall>u\<in>set users. lc (u_email u) \<noteq> lc email"
    and "c = \<lparr>r_name = name, r_email = email, r_password = password, r_confirmPassword = password\<rparr>"
  shows "register lc c w =
     (Inr (), w\<lparr>disk := (disk w)(USERS_STORAGE_KEY \<mapsto> UsersJson (users @ [new_user lc c w]),
                              password_key (u_id (new_user lc c w)) \<mapsto> Raw password,
                              AUTH_STORAGE_KEY \<mapsto> UserJson (new_user lc c w)),
                authState := \<lparr>isAuthenticated = True, user = Some (new_user lc c w), isLoading = False\<rparr>\<rparr>)"
proof -
  have "find (same_email lc (r_email c)) users = None"
    using assms(4,5) by (simp add: find_None_iff same_email_def)
  with assms have "register_try lc c w =
     (Inr (), w\<lparr>disk := (disk w)(USERS_STORAGE_KEY \<mapsto> UsersJson (users @ [new_user lc c w]),
                              password_key (u_id (new_user lc c w)) \<mapsto> Raw (r_password c),
                              AUTH_STORAGE_KEY \<mapsto> UserJson (new_user lc c w)),
                authState := \<lparr>isAuthenticated = True, user = Some (new_user lc c w), isLoading = False\<rparr>\<rparr>)"
    by (intro register_try_ok) simp_all
  from register_pass [OF this] assms(5) show ?thesis by simp
qed

lemma login_after_register:
  assumes "\<forall>u\<in>set users. lc (u_email u) \<noteq> lc email"
    and "u_email nu = lc email" and "lc email' = lc email"
    and "faults w = []"
    and "disk w USERS_STORAGE_KEY = Some (UsersJson (users @ [nu]))"
    and "disk w (password_key (u_id nu)) = Some (Raw password)"
    and "lc (lc email) = lc email"
  shows "login lc \<lparr>l_email = email', l_password = password\<rparr> w =
     (Inr (), w\<lparr>disk := (disk w)(AUTH_STORAGE_KEY \<mapsto> UserJson nu),
                authState := \<lparr>isAuthenticated = True, user = Some nu, isLoading = False\<rparr>\<rparr>)"
proof -
  let ?c = "\<lparr>l_email = email', l_password = password\<rparr>"
  have "find (same_email lc (l_email ?c)) (users @ [nu]) = Some nu"
    using assms(1,2,3,7) by (intro find_appended) (simp_all add: same_email_def)
  with assms have "login_try lc ?c w =
     (Inr (), w\<lparr>disk := (disk w)(AUTH_STORAGE_KEY \<mapsto> UserJson nu),
                authState := \<lparr>isAuthenticated = True, user = Some nu, isLoading = False\<rparr>\<rparr>)"
    by (intro login_try_ok) simp_all
  then show ?thesis by (rule login_pass)
qed

text \<open>
  Claim C5. A registration whose password differs from its confirmation, or is shorter
  than six characters, fails with a validation error before any storage call is made:
  the persisted state (registry, credentials, session slot) is what it was, no pending
  storage outcome has been consumed, and the session (authenticated flag and current
  user) is what it was, so an unauthenticated session stays unauthenticated.
\<close>

theorem register_validation_failure:
  assumes "r_password c \<noteq> r_confirmPassword c \<or> length (r_password c) < 6"
  shows "\<exists>e. ValidationError e \<and> fst (register lc c w) = Inl e \<and>
             disk (snd (register lc c w)) = disk w \<and>
             faults (snd (register lc c w)) = faults w \<and>
             isAuthenticated (authState (snd (register lc c w))) = isAuthenticated (authState w) \<and>
             user (authState (snd (register lc c w))) = user (authState w)"
proof (cases "r_password c \<noteq> r_confirmPassword c")
  case True
  show ?thesis
    by (simp add: register_catch [OF register_try_mismatch [OF True]] ValidationError_def)
next
  case False
  with assms have eq: "r_password c = r_confirmPassword c" and short: "length (r_password c) < 6"
    by auto
  show ?thesis
    by (simp add: register_catch [OF register_try_short [OF eq short]] ValidationError_def)
qed

theorem register_validation_failure_witness:
  "r_password ann_mistyped \<noteq> r_confirmPassword ann_mistyped \<and>
   fst (register ascii_toLowerCase ann_mistyped fresh_install) = Inl (Error ''Passwords do not match'') \<and>
   disk (snd (register ascii_toLowerCase ann_mistyped fresh_install)) = disk fresh_install \<and>
   length (r_password ann_short) < 6 \<and>
   fst (register ascii_toLowerCase ann_short fresh_install)
     = Inl (Error ''Password must be at least 6 characters'') \<and>
   disk (snd (register ascii_toLowerCase ann_short fresh_install)) = disk fresh_install"
proof -
  have a: "r_password ann_mistyped \<noteq> r_confirmPassword ann_mistyped"
    by (simp add: ann_mistyped_def)
  have b: "length (r_password ann_short) < 6" by (simp add: ann_short_def)
  have c: "r_password ann_short = r_confirmPassword ann_short" by (simp add: ann_short_def)
  have "fst (register ascii_toLowerCase ann_mistyped fresh_install) = Inl (Error ''Passwords do not match'')"
    by (simp add: register_catch [OF register_try_mismatch [OF a]])
  moreover have "fst (register ascii_toLowerCase ann_short fresh_install)
      = Inl (Error ''Password must be at least 6 characters'')"
    by (simp add: register_catch [OF register_try_short [OF c b]])
  moreover from register_validation_failure [of ann_mistyped ascii_toLowerCase fresh_install] a
  have "disk (snd (register ascii_toLowerCase ann_mistyped fresh_install)) = disk fresh_install" by blast
  moreover from register_validation_failure [of ann_short ascii_toLowerCase fresh_install] b
  have "disk (snd (register ascii_toLowerCase ann_short fresh_install)) = disk fresh_install" by blast
  ultimately show ?thesis using a b by simp
qed

text \<open>
  Claim C6. When the registry holds a user whose email and the supplied email have the
  same \<open>toLowerCase\<close>, a registration that passes the password validation fails with
  the conflict error, and the persisted state and the session are left as they were.
  Nothing is assumed of \<open>toLowerCase\<close>.
\<close>

theorem register_conflict:
  assumes "faults w = []"
    and "disk w USERS_STORAGE_KEY = Some (UsersJson users)"
    and "u \<in> set users"
    and "lc (r_email c) = lc (u_email u)"
    and "r_password c = r_confirmPassword c" and "6 \<le> length (r_password c)"
  shows "fst (register lc c w) = Inl (Error ''Email already registered'') \<and>
         ConflictError (Error ''Email already registered'') \<and>
         disk (snd (register lc c w)) = disk w \<and>
         isAuthenticated (authState (snd (register lc c w))) = isAuthenticated (authState w) \<and>
         user (authState (snd (register lc c w))) = user (authState w)"
proof -
  from assms(3,4) obtain v where "find (same_email lc (r_email c)) users = Some v"
    by (cases "find (same_email lc (r_email c)) users") (auto simp: find_None_iff same_email_def)
  then have "register_try lc c w = (Inl (Error ''Email already registered''),
                       w\<lparr>authState := authReducer (authState w) (SET_LOADING True)\<rparr>)"
    using assms by (intro register_try_conflict) simp_all
  from register_catch [OF this] show ?thesis by (simp add: ConflictError_def)
qed

theorem register_conflict_witness:
  "disk ann_installed USERS_STORAGE_KEY = Some (UsersJson [ann]) \<and>
   r_email ann_again \<noteq> u_email ann \<and>
   ascii_toLowerCase (r_email ann_again) = ascii_toLowerCase (u_email ann) \<and>
   fst (register ascii_toLowerCase ann_again ann_installed) = Inl (Error ''Email already registered'') \<and>
   disk (snd (register ascii_toLowerCase ann_again ann_installed)) = disk ann_installed"
proof -
  have a: "faults ann_installed = []" by (simp add: ann_installed_def fresh_install_def)
  have b: "disk ann_installed USERS_STORAGE_KEY = Some (UsersJson [ann])"
    by (simp add: ann_installed_def fresh_install_def)
  have c: "ascii_toLowerCase (r_email ann_again) = ascii_toLowerCase (u_email ann)"
    by (simp add: ann_again_def ann_def lower_test lower_test2)
  have d: "r_password ann_again = r_confirmPassword ann_again" "6 \<le> length (r_password ann_again)"
    by (simp_all add: ann_again_def)
  have e: "r_email ann_again \<noteq> u_email ann"
    by (simp add: ann_again_def ann_def js_def)
  from register_conflict [OF a b _ c d] b c e show ?thesis by simp
qed

text \<open>
  Claim C7. For a registered user (emails in the registry being unique up to case),
  login with that user's email, in any casing, and a password that is not the stored
  credential (the raw text under the user's password key, or none) fails with the
  invalid-credential error; the persisted state (session slot, registry, credentials),
  the authenticated flag and the current user are unchanged.
\<close>

theorem login_wrong_password:
  assumes "faults w = []"
    and "disk w USERS_STORAGE_KEY = Some (UsersJson users)"
    and "u \<in> set users"
    and "distinct (map (lc \<circ> u_email) users)"
    and "lc (l_email c) = lc (u_email u)"
    and "disk w (password_key (u_id u)) = None \<or>
         (\<exists>s. disk w (password_key (u_id u)) = Some (Raw s) \<and> s \<noteq> l_password c)"
  shows "fst (login lc c w) = Inl (Error ''Invalid password'') \<and>
         InvalidCredentialError (Error ''Invalid password'') \<and>
         disk (snd (login lc c w)) = disk w \<and>
         isAuthenticated (authState (snd (login lc c w))) = isAuthenticated (authState w) \<and>
         user (authState (snd (login lc c w))) = user (authState w)"
proof -
  have "find (same_email lc (l_email c)) users = Some u"
    using assms(3,4,5) by (rule find_registered)
  moreover have "disk w (password_key (u_id u)) \<noteq> Some (Raw (l_password c))"
    using assms(6) by auto
  ultimately have "login_try lc c w =
     (Inl (Error ''Invalid password''), w\<lparr>authState := authReducer (authState w) (SET_LOADING True)\<rparr>)"
    using assms(1,2) by (intro login_try_wrong) simp_all
  from login_catch [OF this] show ?thesis by (simp add: InvalidCredentialError_def)
qed

theorem login_wrong_password_witness:
  "disk ann_installed (password_key (u_id ann)) = Some (Raw (js ''secret1'')) \<and>
   js ''secret1'' \<noteq> js ''secret9'' \<and>
   fst (login ascii_toLowerCase \<lparr>l_email = (js ''ANN@x.com''), l_password = (js ''secret9'')\<rparr> ann_installed)
     = Inl (Error ''Invalid password'') \<and>
   disk (snd (login ascii_toLowerCase \<lparr>l_email = (js ''ANN@x.com''), l_password = (js ''secret9'')\<rparr> ann_installed))
     = disk ann_installed"
proof -
  let ?c = "\<lparr>l_email = (js ''ANN@x.com''), l_password = (js ''secret9'')\<rparr>"
  have a: "faults ann_installed = []" by (simp add: ann_installed_def fresh_install_def)
  have b: "disk ann_installed USERS_STORAGE_KEY = Some (UsersJson [ann])"
    by (simp add: ann_installed_def fresh_install_def)
  have c: "ascii_toLowerCase (l_email ?c) = ascii_toLowerCase (u_email ann)"
    by (simp add: ann_def lower_test lower_test2)
  have d: "distinct (map (ascii_toLowerCase \<circ> u_email) [ann])" by simp
  have e: "disk ann_installed (password_key (u_id ann)) = Some (Raw (js ''secret1''))"
    by (simp add: ann_installed_def fresh_install_def)
  have f: "disk ann_installed (password_key (u_id ann)) = None \<or>
         (\<exists>s. disk ann_installed (password_key (u_id ann)) = Some (Raw s) \<and> s \<noteq> l_password ?c)"
    by (simp add: e)
  from login_wrong_password [OF a b _ d c f] e show ?thesis by simp
qed



text \<open>
  Claim C10. \<open>register\<close> stores, in the registry, the session slot and the session
  state, a user whose email is the lower-cased form of the supplied email: it is
  \<open>toLowerCase\<close> of the supplied email, lower-casing it again changes nothing, and for
  an ASCII email it is the email with \<open>A\<close> .. \<open>Z\<close> replaced by \<open>a\<close> .. \<open>z\<close>. A later
  \<open>login\<close> with any casing of the email copies that registry entry into the session
  slot and the session state, so the session user's email is that lower-case form
  whatever casing was supplied at login.
\<close>

theorem registered_email_lowercase:
  assumes "lowercasing lc" and "faults w = []" and "6 \<le> length password"
    and "users_or_empty (disk w USERS_STORAGE_KEY) = Inr users"
    and "\<forall>u\<in>set users. lc (u_email u) \<noteq> lc email"
    and "lc email' = lc email"
  shows "case register lc \<lparr>r_name = name, r_email = email, r_password = password,
                        r_confirmPassword = password\<rparr> w of (r1, w1) \<Rightarrow>
         case logout w1 of (r2, w2) \<Rightarrow>
         case login lc \<lparr>l_email = email', l_password = password\<rparr> w2 of (r3, w3) \<Rightarrow>
           r1 = Inr () \<and> r3 = Inr () \<and>
           (\<exists>nu. u_email nu = lc email \<and> lc (u_email nu) = u_email nu \<and>
                 ((\<forall>x\<in>set email. x < 128) \<longrightarrow> u_email nu = map ascii_lower email) \<and>
                 user (authState w1) = Some nu \<and>
                 disk w1 AUTH_STORAGE_KEY = Some (UserJson nu) \<and>
                 disk w1 USERS_STORAGE_KEY = Some (UsersJson (users @ [nu])) \<and>
                 user (authState w3) = Some nu \<and>
                 disk w3 AUTH_STORAGE_KEY = Some (UserJson nu) \<and>
                 disk w3 USERS_STORAGE_KEY = Some (UsersJson (users @ [nu])))"
proof -
  define c where "c = \<lparr>r_name = name, r_email = email, r_password = password,
                        r_confirmPassword = password\<rparr>"
  define nu where "nu = new_user lc c w"
  define w1 where "w1 = snd (register lc c w)"
  define w2 where "w2 = snd (logout w1)"
  define w3 where "w3 = snd (login lc \<lparr>l_email = email', l_password = password\<rparr> w2)"
  have reg: "register lc c w =
     (Inr (), w\<lparr>disk := (disk w)(USERS_STORAGE_KEY \<mapsto> UsersJson (users @ [nu]),
                              password_key (u_id nu) \<mapsto> Raw password,
                              AUTH_STORAGE_KEY \<mapsto> UserJson nu),
                authState := \<lparr>isAuthenticated = True, user = Some nu, isLoading = False\<rparr>\<rparr>)"
    unfolding nu_def using assms(2,3,4,5) c_def by (rule register_success)
  have f1: "faults w1 = []" using assms(2) by (simp add: w1_def reg)
  have out: "logout w1 = (Inr (), w1\<lparr>disk := (disk w1)(AUTH_STORAGE_KEY := None),
                          authState := \<lparr>isAuthenticated = False, user = None, isLoading = False\<rparr>\<rparr>)"
    using f1 by (rule logout_ok)
  have f2: "faults w2 = []" using f1 by (simp add: w2_def out)
  have d1: "disk w1 USERS_STORAGE_KEY = Some (UsersJson (users @ [nu]))"
    "disk w1 (password_key (u_id nu)) = Some (Raw password)"
    "disk w1 AUTH_STORAGE_KEY = Some (UserJson nu)"
    "user (authState w1) = Some nu"
    by (simp_all add: w1_def reg)
  have d2: "disk w2 USERS_STORAGE_KEY = Some (UsersJson (users @ [nu]))"
    "disk w2 (password_key (u_id nu)) = Some (Raw password)"
    using d1 by (simp_all add: w2_def out)
  have em: "u_email nu = lc email" by (simp add: nu_def new_user_def c_def)
  have fixed: "lc (u_email nu) = u_email nu"
    by (simp add: em lowercasing_idem [OF assms(1)])
  have ascii: "(\<forall>x\<in>set email. x < 128) \<longrightarrow> u_email nu = map ascii_lower email"
    using assms(1) by (simp add: em lowercasing_def)
  have inn: "login lc \<lparr>l_email = email', l_password = password\<rparr> w2 =
     (Inr (), w2\<lparr>disk := (disk w2)(AUTH_STORAGE_KEY \<mapsto> UserJson nu),
                authState := \<lparr>isAuthenticated = True, user = Some nu, isLoading = False\<rparr>\<rparr>)"
    using assms(5) em assms(6) f2 d2 lowercasing_idem [OF assms(1)]
    by (rule login_after_register)
  have d3: "user (authState w3) = Some nu" "disk w3 AUTH_STORAGE_KEY = Some (UserJson nu)"
    "disk w3 USERS_STORAGE_KEY = Some (UsersJson (users @ [nu]))"
    using d2 by (simp_all add: w3_def inn)
  have "\<exists>nu. u_email nu = lc email \<and> lc (u_email nu) = u_email nu \<and>
                 ((\<forall>x\<in>set email. x < 128) \<longrightarrow> u_email nu = map ascii_lower email) \<and>
                 user (authState w1) = Some nu \<and>
                 disk w1 AUTH_STORAGE_KEY = Some (UserJson nu) \<and>
                 disk w1 USERS_STORAGE_KEY = Some (UsersJson (users @ [nu])) \<and>
                 user (authState w3) = Some nu \<and>
                 disk w3 AUTH_STORAGE_KEY = Some (UserJson nu) \<and>
                 disk w3 USERS_STORAGE_KEY = Some (UsersJson (users @ [nu]))"
    using em fixed ascii d1 d3 by blast
  moreover have "fst (register lc c w) = Inr ()" by (simp add: reg)
  moreover have "fst (login lc \<lparr>l_email = email', l_password = password\<rparr> w2) = Inr ()"
    by (simp add: inn)
  ultimately show ?thesis
    unfolding w1_def w2_def w3_def c_def by (simp add: split_def)
qed

theorem registered_email_lowercase_witness:
  "lowercasing ascii_toLowerCase \<and>
   users_or_empty (disk fresh_install USERS_STORAGE_KEY) = Inr [] \<and>
   js ''ANN@x.com'' \<noteq> r_email ann_signup \<and>
   ascii_toLowerCase (js ''ANN@x.com'') = ascii_toLowerCase (r_email ann_signup) \<and>
   map_option u_email
     (user (authState (snd (register ascii_toLowerCase ann_signup fresh_install))))
     = Some (js ''ann@x.com'') \<and>
   map_option u_email
     (user (authState (snd (login ascii_toLowerCase
        \<lparr>l_email = js ''ANN@x.com'', l_password = js ''secret1''\<rparr>
        (snd (logout (snd (register ascii_toLowerCase ann_signup fresh_install))))))))
     = Some (js ''ann@x.com'')"
proof -
  have a: "faults fresh_install = []" by (simp add: fresh_install_def)
  have b: "6 \<le> length (js ''secret1'')" by (simp add: js_def)
  have c: "users_or_empty (disk fresh_install USERS_STORAGE_KEY) = Inr []"
    by (simp add: fresh_install_def users_or_empty_def)
  have d: "\<forall>u\<in>set []. ascii_toLowerCase (u_email u) \<noteq> ascii_toLowerCase (js ''Ann@X.com'')"
    by simp
  have e: "ascii_toLowerCase (js ''ANN@x.com'') = ascii_toLowerCase (js ''Ann@X.com'')"
    by (simp add: lower_test lower_test3)
  have f: "js ''ANN@x.com'' \<noteq> r_email ann_signup" by (simp add: ann_signup_def js_def)
  from registered_email_lowercase [OF lowercasing_ascii a b c d e, of "js ''Ann''"]
    c e f lowercasing_ascii
  show ?thesis
    by (auto simp: split_def ann_signup_def lower_test3)
qed

section \<open>Watchlist store\<close>

lemma loadWatchlist_try_ok:
  assumes "faults w = []"
    and "items_or_empty (disk w (js ''watchlist'')) = Inr ms"
    and "items_or_empty (disk w (js ''tvWatchlist'')) = Inr ts"
  shows "loadWatchlist_try w = (Inr (map (tagged movie) ms @ map (tagged tv) ts), w)"
  using assms
  by (simp add: loadWatchlist_try_def Promise_all2_def await_def getItem_ok liftE_def resolve_def)

text \<open>
  Claim C4. When both collections are readable, the list shown under \<open>all\<close> is the
  movie collection followed by the TV collection, each entry carrying the media type of
  the collection it came from. Nothing is merged: the length is the sum of the two
  lengths, and for every id the entries of that id tagged \<open>movie\<close> are as many as
  the movie collection holds for it, those tagged \<open>tv\<close> as many as the TV collection
  holds, so an id present in both is listed once per media type.
\<close>

theorem list_all_concatenates:
  assumes "faults w = []"
    and "items_or_empty (disk w (js ''watchlist'')) = Inr ms"
    and "items_or_empty (disk w (js ''tvWatchlist'')) = Inr ts"
    and "activeWatchlistType s = all"
  shows "filteredWatchlist (fst (loadWatchlist s w)) = map (tagged movie) ms @ map (tagged tv) ts \<and>
         length (filteredWatchlist (fst (loadWatchlist s w))) = length ms + length ts \<and>
         length (filter (\<lambda>x. i_id x = i \<and> i_media_type x = Some movie)
                   (filteredWatchlist (fst (loadWatchlist s w))))
           = length (filter (\<lambda>x. i_id x = i) ms) \<and>
         length (filter (\<lambda>x. i_id x = i \<and> i_media_type x = Some tv)
                   (filteredWatchlist (fst (loadWatchlist s w))))
           = length (filter (\<lambda>x. i_id x = i) ts)"
proof -
  have l: "loadWatchlist s w = (s\<lparr>watchlist := map (tagged movie) ms @ map (tagged tv) ts, loading := False\<rparr>, w)"
    by (simp add: loadWatchlist_def loadWatchlist_try_ok [OF assms(1,2,3)])
  have f: "filteredWatchlist (fst (loadWatchlist s w)) = map (tagged movie) ms @ map (tagged tv) ts"
    using assms(4) by (simp add: l filteredWatchlist_def)
  have a: "filter (\<lambda>x. i_id x = i \<and> i_media_type x = Some movie) (map (tagged m) xs)
        = (if m = movie then map (tagged m) (filter (\<lambda>x. i_id x = i) xs) else [])" for m xs
    by (induction xs) (auto simp: tagged_def)
  have b: "filter (\<lambda>x. i_id x = i \<and> i_media_type x = Some tv) (map (tagged m) xs)
        = (if m = tv then map (tagged m) (filter (\<lambda>x. i_id x = i) xs) else [])" for m xs
    by (induction xs) (auto simp: tagged_def)
  show ?thesis unfolding f by (simp add: a b)
qed

theorem list_all_concatenates_witness:
  "items_or_empty (disk both5 (js ''watchlist'')) = Inr [movie5] \<and>
   items_or_empty (disk both5 (js ''tvWatchlist'')) = Inr [show5] \<and>
   filteredWatchlist (fst (loadWatchlist all_tab both5)) = [movie5, show5] \<and>
   length (filter (\<lambda>x. i_id x = 5) (filteredWatchlist (fst (loadWatchlist all_tab both5)))) = 2"
proof -
  have a: "faults both5 = []" by (simp add: both5_def fresh_install_def)
  have b: "items_or_empty (disk both5 (js ''watchlist'')) = Inr [movie5]"
    by (simp add: both5_def)
  have c: "items_or_empty (disk both5 (js ''tvWatchlist'')) = Inr [show5]"
    by (simp add: both5_def)
  have d: "activeWatchlistType all_tab = all" by (simp add: all_tab_def)
  have e: "tagged movie movie5 = movie5" "tagged tv show5 = show5" "i_id movie5 = 5" "i_id show5 = 5"
    by (simp_all add: tagged_def movie5_def show5_def)
  from list_all_concatenates [OF a b c d, of 5] b c e show ?thesis by simp
qed

lemma toggleWatchlist_at_ok:
  assumes "faults w = []" and "items_or_empty (disk w key) = Inr xs"
  shows "toggleWatchlist_at key ident a title flag w =
     (\<not> flag,
      w\<lparr>notices := notices w @
           [if flag
            then Toast ''success'' ''Removed from Watchlist''
                   (title @ js '' has been removed from your watchlist'')
            else Toast ''success'' ''Added to Watchlist''
                   (title @ js '' has been added to your watchlist'')],
        disk := (disk w)(key \<mapsto>
           ItemsJson (if flag then filter (\<lambda>x. i_id x \<noteq> ident) xs else xs @ [a]))\<rparr>)"
  using assms
  by (simp add: toggleWatchlist_at_def toggleWatchlist_try_def await_def getItem_ok setItem_ok
      liftE_def show_notice_def)

lemma mset_remove_then_push:
  assumes "\<forall>x\<in>set xs. i_id x = ident \<longrightarrow> x = a"
    and "length (filter (\<lambda>x. i_id x = ident) xs) = 1"
  shows "mset (filter (\<lambda>x. i_id x \<noteq> ident) xs @ [a]) = mset xs"
proof -
  obtain e where e: "filter (\<lambda>x. i_id x = ident) xs = [e]"
    using assms(2) by (cases "filter (\<lambda>x. i_id x = ident) xs") auto
  then have "e \<in> set (filter (\<lambda>x. i_id x = ident) xs)" by simp
  then have "e = a" using assms(1) by auto
  have "mset xs = mset (filter (\<lambda>x. i_id x = ident) xs) + mset (filter (\<lambda>x. \<not> i_id x = ident) xs)"
    by (simp only: mset_filter multiset_partition [symmetric])
  then show ?thesis using e \<open>e = a\<close> by simp
qed

text \<open>
  Claim C3, as amended. For a component whose flag agrees with the stored collection,
  and a collection holding at most one entry with the toggled id, two toggles in
  succession restore the flag and the membership of the id, the ids of the collection up
  to order, and every entry of another id in place. The entries themselves are restored
  up to order when the entry stored under the toggled id, if any, is the object the
  component pushes; the three components are instances of \<open>toggleWatchlist_at\<close>.
\<close>

theorem toggle_twice:
  assumes "faults w = []" and "items_or_empty (disk w key) = Inr xs"
    and "flag = list_ex (\<lambda>x. i_id x = ident) xs"
    and "i_id a = ident"
    and "length (filter (\<lambda>x. i_id x = ident) xs) \<le> 1"
  shows "case toggleWatchlist_at key ident a title flag w of (f1, w1) \<Rightarrow>
         case toggleWatchlist_at key ident a title f1 w1 of (f2, w2) \<Rightarrow>
           f1 = (\<not> flag) \<and> f2 = flag \<and>
           (\<exists>ys. disk w2 key = Some (ItemsJson ys) \<and>
                 list_ex (\<lambda>x. i_id x = ident) ys = list_ex (\<lambda>x. i_id x = ident) xs \<and>
                 mset (map i_id ys) = mset (map i_id xs) \<and>
                 filter (\<lambda>x. i_id x \<noteq> ident) ys = filter (\<lambda>x. i_id x \<noteq> ident) xs \<and>
                 ((\<forall>x\<in>set xs. i_id x = ident \<longrightarrow> x = a) \<longrightarrow> mset ys = mset xs))"
proof -
  define w1 where "w1 = snd (toggleWatchlist_at key ident a title flag w)"
  define zs where "zs = (if flag then filter (\<lambda>x. i_id x \<noteq> ident) xs else xs @ [a])"
  define ys where "ys = (if \<not> flag then filter (\<lambda>x. i_id x \<noteq> ident) zs else zs @ [a])"
  note i0 = assms(2)
  have t1: "toggleWatchlist_at key ident a title flag w = (\<not> flag, w1)"
    "faults w1 = []" "disk w1 key = Some (ItemsJson zs)"
    using assms(1) by (simp_all add: w1_def zs_def toggleWatchlist_at_ok [OF assms(1) i0])
  have i1: "items_or_empty (disk w1 key) = Inr zs" using t1(3) by simp
  have t2: "fst (toggleWatchlist_at key ident a title (\<not> flag) w1) = flag"
    "disk (snd (toggleWatchlist_at key ident a title (\<not> flag) w1)) key = Some (ItemsJson ys)"
    by (simp_all add: ys_def toggleWatchlist_at_ok [OF t1(2) i1])
  have ys: "ys = (if flag then filter (\<lambda>x. i_id x \<noteq> ident) xs @ [a] else xs)"
    using assms(3,4) by (auto simp: ys_def zs_def list_ex_iff filter_id_conv)
  have mem: "list_ex (\<lambda>x. i_id x = ident) ys = list_ex (\<lambda>x. i_id x = ident) xs"
    using assms(3,4) by (auto simp: ys list_ex_iff)
  have rest: "filter (\<lambda>x. i_id x \<noteq> ident) ys = filter (\<lambda>x. i_id x \<noteq> ident) xs"
    using assms(4) by (simp add: ys)
  have one: "flag \<Longrightarrow> length (filter (\<lambda>x. i_id x = ident) xs) = 1"
  proof -
    assume flag
    then have "filter (\<lambda>x. i_id x = ident) xs \<noteq> []"
      using assms(3) by (auto simp: list_ex_iff filter_empty_conv)
    then have "length (filter (\<lambda>x. i_id x = ident) xs) \<noteq> 0" by simp
    with assms(5) show ?thesis by linarith
  qed
  have full: "(\<forall>x\<in>set xs. i_id x = ident \<longrightarrow> x = a) \<longrightarrow> mset ys = mset xs"
  proof (cases flag)
    case True
    show ?thesis
    proof
      assume h: "\<forall>x\<in>set xs. i_id x = ident \<longrightarrow> x = a"
      from mset_remove_then_push [OF h one [OF True]] True show "mset ys = mset xs"
        by (simp add: ys)
    qed
  next
    case False
    then show ?thesis by (simp add: ys)
  qed
  have ids: "mset (map i_id ys) = mset (map i_id xs)"
  proof (cases flag)
    case True
    have "mset (map i_id xs) = mset (map i_id (filter (\<lambda>x. i_id x = ident) xs))
            + mset (map i_id (filter (\<lambda>x. \<not> i_id x = ident) xs))"
      by (metis mset_map mset_filter multiset_partition image_mset_union)
    moreover obtain e where e: "filter (\<lambda>x. i_id x = ident) xs = [e]"
      using one [OF True] by (cases "filter (\<lambda>x. i_id x = ident) xs") auto
    moreover from e have "e \<in> set (filter (\<lambda>x. i_id x = ident) xs)" by simp
    then have "i_id e = ident" by simp
    ultimately show ?thesis using True assms(4) by (simp add: ys)
  next
    case False
    then show ?thesis by (simp add: ys)
  qed
  obtain f2 w2 where r2: "toggleWatchlist_at key ident a title (\<not> flag) w1 = (f2, w2)"
    by force
  with t2 have "f2 = flag" "disk w2 key = Some (ItemsJson ys)" by simp_all
  with mem rest full ids
  have "\<exists>ys. disk w2 key = Some (ItemsJson ys) \<and>
                 list_ex (\<lambda>x. i_id x = ident) ys = list_ex (\<lambda>x. i_id x = ident) xs \<and>
                 mset (map i_id ys) = mset (map i_id xs) \<and>
                 filter (\<lambda>x. i_id x \<noteq> ident) ys = filter (\<lambda>x. i_id x \<noteq> ident) xs \<and>
                 ((\<forall>x\<in>set xs. i_id x = ident \<longrightarrow> x = a) \<longrightarrow> mset ys = mset xs)"
    by blast
  with \<open>f2 = flag\<close> show ?thesis by (simp add: t1(1) r2)
qed

theorem toggle_twice_witness:
  "items_or_empty (disk saved_from_details (js ''watchlist'')) = Inr [movie5, details42] \<and>
   list_ex (\<lambda>x. i_id x = 42) [movie5, details42] \<and>
   fst (toggleWatchlist_MovieDetailScreen details42 False
         (snd (toggleWatchlist_MovieDetailScreen details42 True saved_from_details))) = True \<and>
   (\<exists>ys. disk (snd (toggleWatchlist_MovieDetailScreen details42 False
                 (snd (toggleWatchlist_MovieDetailScreen details42 True saved_from_details))))
            (js ''watchlist'') = Some (ItemsJson ys) \<and>
         mset ys = mset [movie5, details42])"
proof -
  have a: "faults saved_from_details = []" by (simp add: saved_from_details_def fresh_install_def)
  have b: "items_or_empty (disk saved_from_details (js ''watchlist'')) = Inr [movie5, details42]"
    by (simp add: saved_from_details_def)
  have c: "True = list_ex (\<lambda>x. i_id x = 42) [movie5, details42]"
    by (simp add: details42_def)
  have d: "i_id details42 = 42" by (simp add: details42_def)
  have e: "length (filter (\<lambda>x. i_id x = 42) [movie5, details42]) \<le> 1"
    by (simp add: details42_def movie5_def)
  have f: "\<forall>x\<in>set [movie5, details42]. i_id x = 42 \<longrightarrow> x = details42"
    by (simp add: movie5_def)
  from toggle_twice [OF a b c d e, of "shown (i_title details42)"] b c f show ?thesis
    by (auto simp: toggleWatchlist_MovieDetailScreen_def d split_def)
qed

text \<open>
  The claim as stated fails when the stored entry is not the object the component
  pushes: movie 42 saved from a card (tagged, with \<open>genre_ids\<close>) and toggled twice on
  its detail screen is replaced by the detail object (untagged, with \<open>genres\<close>).
\<close>

theorem toggle_twice_counterexample:
  "checkWatchlistStatus_MovieDetailScreen 42 False saved_from_card = (True, saved_from_card) \<and>
   disk saved_from_card (js ''watchlist'') = Some (ItemsJson [tagged movie popular42]) \<and>
   disk (snd (toggleWatchlist_MovieDetailScreen details42 False
           (snd (toggleWatchlist_MovieDetailScreen details42 True saved_from_card)))) (js ''watchlist'')
     = Some (ItemsJson [details42]) \<and>
   mset [details42] \<noteq> mset [tagged movie popular42]"
  by (simp add: checkWatchlistStatus_MovieDetailScreen_def toggleWatchlist_MovieDetailScreen_def
      eval_defs saved_from_card_def fresh_install_def details42_def popular42_def tagged_def)

text \<open>
  Claim C9. Two cards of movie 42 (the same movie in two rows of the home screen) are
  mounted on an empty watchlist, so each holds the flag \<open>False\<close>. The toggle of the
  first card stores the movie; the second card's flag is still \<open>False\<close>, and its
  toggle appends the movie again: the collection holds the id twice.
\<close>

theorem two_cards_duplicate:
  "checkWatchlistStatus_MovieCard popular42 False fresh_install = (False, fresh_install) \<and>
   fst (toggleWatchlist_MovieCard popular42 False fresh_install) = True \<and>
   disk (snd (toggleWatchlist_MovieCard popular42 False fresh_install)) (js ''watchlist'')
     = Some (ItemsJson [tagged movie popular42]) \<and>
   disk (snd (toggleWatchlist_MovieCard popular42 False
           (snd (toggleWatchlist_MovieCard popular42 False fresh_install)))) (js ''watchlist'')
     = Some (ItemsJson [tagged movie popular42, tagged movie popular42]) \<and>
   \<not> distinct (map i_id [tagged movie popular42, tagged movie popular42])"
  by (simp add: checkWatchlistStatus_MovieCard_def toggleWatchlist_MovieCard_def card_key_def
      card_title_def isTV_def eval_defs fresh_install_def popular42_def tagged_def)

text \<open>
  Claim C2, as amended. With a non-empty text at the key \<open>watchlist\<close> on which
  \<open>JSON.parse\<close> throws, the statistics read of the profile screen reports the empty
  collection and removes the key, after which the key reads as the empty collection. A
  watchlist screen whose list is still empty and a detail screen whose flag is still
  \<open>False\<close> show the empty list and no membership when their own read meets the
  corrupt value.
\<close>

theorem corrupt_watchlist_reads:
  assumes "faults w = []" and "disk w (js ''watchlist'') = Some t" and "\<not> falsy (Some t)"
    and "JSON_parse_items t = Inl SyntaxError"
  shows "watchlistStats (fst (loadProfileData p w)) = no_stats \<and>
         disk (snd (loadProfileData p w)) = (disk w)((js ''watchlist'') := None) \<and>
         items_or_empty (disk (snd (loadProfileData p w)) (js ''watchlist'')) = Inr [] \<and>
         (watchlist scr = [] \<longrightarrow> watchlist (fst (loadWatchlist scr w)) = []) \<and>
         (\<not> flag \<longrightarrow> \<not> fst (checkWatchlistStatus_MovieDetailScreen ident flag w))"
proof -
  from assms(3,4) obtain s where t: "t = Raw s" and s: "s \<noteq> []"
    by (cases t) auto
  have lw: "loadWatchlist scr w = (scr\<lparr>loading := False\<rparr>, w)"
    using assms(1,2) t s
    by (simp add: loadWatchlist_def loadWatchlist_try_def Promise_all2_def await_def getItem_ok
        liftE_def items_or_empty_def)
  have cw: "checkWatchlistStatus_MovieDetailScreen ident f w = (f, w)" for f
    using assms(1,2) t s
    by (simp add: checkWatchlistStatus_MovieDetailScreen_def checkWatchlistStatus_at_def getItem_ok)
  have lp: "loadProfileData p w =
      (p\<lparr>watchlistStats := no_stats, ps_loading := False\<rparr>,
       w\<lparr>disk := (disk w)((js ''watchlist'') := None)\<rparr>)"
    using assms(1,2) t s
    by (simp add: loadProfileData_def loadProfileData_inner_def await_def try_catch_def getItem_ok
        removeItem_ok throw_def resolve_def)
  show ?thesis by (simp add: lw cw lp)
qed

theorem corrupt_watchlist_reads_witness:
  "disk corrupt_watchlist (js ''watchlist'') = Some (Raw (js ''not json'')) \<and>
   JSON_parse_items (Raw (js ''not json'')) = Inl SyntaxError \<and>
   watchlistStats (fst (loadProfileData fresh_profile corrupt_watchlist)) = no_stats \<and>
   disk (snd (loadProfileData fresh_profile corrupt_watchlist)) (js ''watchlist'') = None \<and>
   watchlist all_tab = [] \<and>
   watchlist (fst (loadWatchlist all_tab corrupt_watchlist)) = [] \<and>
   \<not> fst (checkWatchlistStatus_MovieDetailScreen 42 False corrupt_watchlist)"
proof -
  have a: "faults corrupt_watchlist = []" by (simp add: corrupt_watchlist_def fresh_install_def)
  have b: "disk corrupt_watchlist (js ''watchlist'') = Some (Raw (js ''not json''))"
    by (simp add: corrupt_watchlist_def)
  have c: "\<not> falsy (Some (Raw (js ''not json'')))" by simp
  have d: "watchlist all_tab = []" by (simp add: all_tab_def)
  have e: "JSON_parse_items (Raw (js ''not json'')) = Inl SyntaxError" by simp
  from corrupt_watchlist_reads [OF a b c e, of fresh_profile all_tab False 42] b d e
  show ?thesis by simp
qed

text \<open>
  The claim as stated fails for the list read and the membership check: the corrupt
  value is still stored after them, and a list loaded earlier stays on the screen.
\<close>

theorem corrupt_watchlist_counterexample:
  "disk corrupt_watchlist (js ''watchlist'') = Some (Raw (js ''not json'')) \<and>
   JSON_parse_items (Raw (js ''not json'')) = Inl SyntaxError \<and>
   disk (snd (loadWatchlist all_tab corrupt_watchlist)) (js ''watchlist'') = Some (Raw (js ''not json'')) \<and>
   disk (snd (checkWatchlistStatus_MovieDetailScreen 42 False corrupt_watchlist)) (js ''watchlist'')
     = Some (Raw (js ''not json'')) \<and>
   watchlist (fst (loadWatchlist (all_tab\<lparr>watchlist := [movie5]\<rparr>) corrupt_watchlist)) = [movie5]"
  by (simp add: corrupt_watchlist_def fresh_install_def all_tab_def loadWatchlist_def
      loadWatchlist_try_def Promise_all2_def checkWatchlistStatus_MovieDetailScreen_def eval_defs)

section \<open>Rejected storage calls\<close>

lemma next_call_eq:
  "next_call w = (faults w \<noteq> [] \<and> hd (faults w), w\<lparr>faults := tl (faults w)\<rparr>)"
  by (cases "faults w") (simp_all add: next_call_def)

lemma getItem_eq:
  "getItem k w = (if faults w \<noteq> [] \<and> hd (faults w) then Inl StorageError else Inr (disk w k),
                  w\<lparr>faults := tl (faults w)\<rparr>)"
  by (simp add: getItem_def next_call_eq)

lemma setItem_eq:
  "setItem k v w = (if faults w \<noteq> [] \<and> hd (faults w)
                    then (Inl StorageError, w\<lparr>faults := tl (faults w)\<rparr>)
                    else (Inr (), w\<lparr>faults := tl (faults w), disk := (disk w)(k \<mapsto> v)\<rparr>))"
  by (simp add: setItem_def next_call_eq)

lemma removeItem_eq:
  "removeItem k w = (if faults w \<noteq> [] \<and> hd (faults w)
                    then (Inl StorageError, w\<lparr>faults := tl (faults w)\<rparr>)
                    else (Inr (), w\<lparr>faults := tl (faults w), disk := (disk w)(k := None)\<rparr>))"
  by (simp add: removeItem_def next_call_eq)

lemma first_rejection:
  "n \<le> 3 \<Longrightarrow> faults w = replicate n False @ True # fs \<Longrightarrow>
   faults w = True # fs \<and> n = 0 \<or> faults w = False # True # fs \<and> n = 1 \<or>
   faults w = False # False # True # fs \<and> n = 2 \<or>
   faults w = False # False # False # True # fs \<and> n = 3"
proof -
  assume "n \<le> 3" and f: "faults w = replicate n False @ True # fs"
  then consider "n = 0" | "n = Suc 0" | "n = Suc (Suc 0)" | "n = Suc (Suc (Suc 0))"
    by linarith
  then show ?thesis using f by cases simp_all
qed

lemma login_rejected:
  assumes "faults w = replicate n False @ True # fs" and "n \<le> 2"
    and "users_or_empty (disk w USERS_STORAGE_KEY) = Inr users"
    and "find (same_email lc (l_email c)) users = Some u"
    and "disk w (password_key (u_id u)) = Some (Raw (l_password c))"
  shows "fst (login lc c w) = Inl StorageError \<and>
         notices (snd (login lc c w)) = notices w @ [AlertError ''Login Failed'' StorageError] \<and>
         disk (snd (login lc c w)) = disk w \<and>
         user (authState (snd (login lc c w))) = user (authState w) \<and>
         isAuthenticated (authState (snd (login lc c w))) = isAuthenticated (authState w)"
proof -
  from assms(2) have "n \<le> 3" by simp
  from first_rejection [OF this assms(1)] assms(2)
  consider "faults w = True # fs" | "faults w = False # True # fs"
    | "faults w = False # False # True # fs"
    by auto
  then show ?thesis
    using assms(3,4,5)
    by cases
      (simp_all add: login_def login_try_def try_catch_def await_def dispatch_def throw_def
        liftE_def show_notice_def getItem_eq setItem_eq)
qed

lemma toggle_rejected:
  assumes "faults w = replicate n False @ True # fs" and "n \<le> 1"
    and "items_or_empty (disk w key) = Inr xs"
  shows "fst (toggleWatchlist_at key ident a title flag w) = flag \<and>
         last (notices (snd (toggleWatchlist_at key ident a title flag w)))
           = Toast ''error'' ''Error'' (js ''Failed to update watchlist'') \<and>
         disk (snd (toggleWatchlist_at key ident a title flag w)) = disk w"
proof -
  from assms(2) have "n \<le> 3" by simp
  from first_rejection [OF this assms(1)] assms(2)
  consider "faults w = True # fs" | "faults w = False # True # fs"
    by auto
  then show ?thesis
    using assms(3)
    by cases
      (simp_all add: toggleWatchlist_at_def toggleWatchlist_try_def await_def liftE_def
        show_notice_def getItem_eq setItem_eq)
qed

lemma register_rejected:
  assumes "faults w = replicate n False @ True # fs" and "n \<le> 3"
    and "r_password c = r_confirmPassword c" and "6 \<le> length (r_password c)"
    and "users_or_empty (disk w USERS_STORAGE_KEY) = Inr users"
    and "find (same_email lc (r_email c)) users = None"
  shows "fst (register lc c w) = Inl StorageError \<and>
         notices (snd (register lc c w))
           = notices w @ [AlertError ''Registration Failed'' StorageError] \<and>
         user (authState (snd (register lc c w))) = user (authState w) \<and>
         isAuthenticated (authState (snd (register lc c w))) = isAuthenticated (authState w) \<and>
         disk (snd (register lc c w)) =
           (if n \<le> 1 then disk w
            else if n = 2
            then (disk w)(USERS_STORAGE_KEY \<mapsto> UsersJson (users @ [new_user lc c w]))
            else (disk w)(USERS_STORAGE_KEY \<mapsto> UsersJson (users @ [new_user lc c w]),
                          password_key (u_id (new_user lc c w)) \<mapsto> Raw (r_password c)))"
proof -
  from first_rejection [OF assms(2) assms(1)]
  consider "faults w = True # fs" "n = 0" | "faults w = False # True # fs" "n = 1"
    | "faults w = False # False # True # fs" "n = 2"
    | "faults w = False # False # False # True # fs" "n = 3"
    by auto
  then show ?thesis
    using assms(3,4,5,6)
    by cases
      (simp_all add: register_def register_try_def try_catch_def await_def dispatch_def throw_def
        liftE_def show_notice_def getItem_eq setItem_eq new_user_def Let_def)
qed

lemma updateUser_rejected:
  assumes "faults w = replicate n False @ True # fs" and "n \<le> 2"
    and "user (authState w) = Some current"
    and "users_or_empty (disk w USERS_STORAGE_KEY) = Inr users"
    and "findIndex (\<lambda>u. u_id u = u_id current) users = Some i"
  shows "fst (updateUser p w) = Inr () \<and>
         notices (snd (updateUser p w))
           = notices w @ [AlertText ''Error'' ''Failed to update profile''] \<and>
         authState (snd (updateUser p w)) = authState w \<and>
         disk (snd (updateUser p w)) =
           (if n = 0 then disk w
            else (disk w)(AUTH_STORAGE_KEY \<mapsto> UserJson (merge_user current p)))"
proof -
  from assms(2) have "n \<le> 3" by simp
  from first_rejection [OF this assms(1)] assms(2)
  consider "faults w = True # fs" "n = 0" | "faults w = False # True # fs" "n = 1"
    | "faults w = False # False # True # fs" "n = 2"
    by auto
  then show ?thesis
    using assms(3,4,5)
    by cases
      (simp_all add: updateUser_def try_catch_def await_def liftE_def show_notice_def
        resolve_def dispatch_def getItem_eq setItem_eq Let_def)
qed

text \<open>
  Claim C8, as amended. The storage calls of an operation are counted from 0, and call
  \<open>n\<close> is the first that rejects. \<open>login\<close> (registry read, credential read, session
  write) and the toggles (read, write) write one key: the error is surfaced (\<open>login\<close>
  rethrows it after its alert, the toggle shows the error toast and keeps its flag) and
  the persisted state is what it was. \<open>register\<close> (registry read, then the registry,
  the credential and the session slot are written) and \<open>updateUser\<close> (session slot
  written, registry read, registry written) have no rollback: the error is surfaced
  (\<open>register\<close> rethrows it after its alert, \<open>updateUser\<close> alerts and returns
  normally), the session state in memory is unchanged, and the persisted state holds
  exactly the writes made before the rejected call: nothing, the registry, or the
  registry and the credential for \<open>register\<close>; nothing, or the session slot, for
  \<open>updateUser\<close>.
\<close>

theorem storage_failure_effects:
  "(faults wl = replicate nl False @ True # fl \<and> nl \<le> 2 \<and>
    users_or_empty (disk wl USERS_STORAGE_KEY) = Inr usersl \<and>
    find (same_email lc (l_email cl)) usersl = Some ul \<and>
    disk wl (password_key (u_id ul)) = Some (Raw (l_password cl)) \<longrightarrow>
      fst (login lc cl wl) = Inl StorageError \<and>
      notices (snd (login lc cl wl)) = notices wl @ [AlertError ''Login Failed'' StorageError] \<and>
      disk (snd (login lc cl wl)) = disk wl \<and>
      user (authState (snd (login lc cl wl))) = user (authState wl) \<and>
      isAuthenticated (authState (snd (login lc cl wl))) = isAuthenticated (authState wl)) \<and>
   (faults wt = replicate nt False @ True # ft \<and> nt \<le> 1 \<and>
    items_or_empty (disk wt key) = Inr xs \<longrightarrow>
      fst (toggleWatchlist_at key ident a title flag wt) = flag \<and>
      last (notices (snd (toggleWatchlist_at key ident a title flag wt)))
        = Toast ''error'' ''Error'' (js ''Failed to update watchlist'') \<and>
      disk (snd (toggleWatchlist_at key ident a title flag wt)) = disk wt) \<and>
   (faults wr = replicate nr False @ True # fr \<and> nr \<le> 3 \<and>
    r_password cr = r_confirmPassword cr \<and> 6 \<le> length (r_password cr) \<and>
    users_or_empty (disk wr USERS_STORAGE_KEY) = Inr usersr \<and>
    find (same_email lc (r_email cr)) usersr = None \<longrightarrow>
      fst (register lc cr wr) = Inl StorageError \<and>
      notices (snd (register lc cr wr))
        = notices wr @ [AlertError ''Registration Failed'' StorageError] \<and>
      user (authState (snd (register lc cr wr))) = user (authState wr) \<and>
      isAuthenticated (authState (snd (register lc cr wr))) = isAuthenticated (authState wr) \<and>
      disk (snd (register lc cr wr)) =
        (if nr \<le> 1 then disk wr
         else if nr = 2
         then (disk wr)(USERS_STORAGE_KEY \<mapsto> UsersJson (usersr @ [new_user lc cr wr]))
         else (disk wr)(USERS_STORAGE_KEY \<mapsto> UsersJson (usersr @ [new_user lc cr wr]),
                        password_key (u_id (new_user lc cr wr)) \<mapsto> Raw (r_password cr)))) \<and>
   (faults wu = replicate nu False @ True # fu \<and> nu \<le> 2 \<and>
    user (authState wu) = Some current \<and>
    users_or_empty (disk wu USERS_STORAGE_KEY) = Inr usersu \<and>
    findIndex (\<lambda>u. u_id u = u_id current) usersu = Some i \<longrightarrow>
      fst (updateUser p wu) = Inr () \<and>
      notices (snd (updateUser p wu))
        = notices wu @ [AlertText ''Error'' ''Failed to update profile''] \<and>
      authState (snd (updateUser p wu)) = authState wu \<and>
      disk (snd (updateUser p wu)) =
        (if nu = 0 then disk wu
         else (disk wu)(AUTH_STORAGE_KEY \<mapsto> UserJson (merge_user current p))))"
proof (intro conjI impI)
  assume "faults wl = replicate nl False @ True # fl \<and> nl \<le> 2 \<and>
    users_or_empty (disk wl USERS_STORAGE_KEY) = Inr usersl \<and>
    find (same_email lc (l_email cl)) usersl = Some ul \<and>
    disk wl (password_key (u_id ul)) = Some (Raw (l_password cl))"
  then have "fst (login lc cl wl) = Inl StorageError \<and>
      notices (snd (login lc cl wl)) = notices wl @ [AlertError ''Login Failed'' StorageError] \<and>
      disk (snd (login lc cl wl)) = disk wl \<and>
      user (authState (snd (login lc cl wl))) = user (authState wl) \<and>
      isAuthenticated (authState (snd (login lc cl wl))) = isAuthenticated (authState wl)"
    by (elim conjE) (rule login_rejected, assumption+)
  then show "fst (login lc cl wl) = Inl StorageError"
    "notices (snd (login lc cl wl)) = notices wl @ [AlertError ''Login Failed'' StorageError]"
    "disk (snd (login lc cl wl)) = disk wl"
    "user (authState (snd (login lc cl wl))) = user (authState wl)"
    "isAuthenticated (authState (snd (login lc cl wl))) = isAuthenticated (authState wl)"
    by simp_all
next
  assume "faults wt = replicate nt False @ True # ft \<and> nt \<le> 1 \<and>
    items_or_empty (disk wt key) = Inr xs"
  then have "fst (toggleWatchlist_at key ident a title flag wt) = flag \<and>
      last (notices (snd (toggleWatchlist_at key ident a title flag wt)))
        = Toast ''error'' ''Error'' (js ''Failed to update watchlist'') \<and>
      disk (snd (toggleWatchlist_at key ident a title flag wt)) = disk wt"
    by (elim conjE) (rule toggle_rejected, assumption+)
  then show "fst (toggleWatchlist_at key ident a title flag wt) = flag"
    "last (notices (snd (toggleWatchlist_at key ident a title flag wt)))
        = Toast ''error'' ''Error'' (js ''Failed to update watchlist'')"
    "disk (snd (toggleWatchlist_at key ident a title flag wt)) = disk wt"
    by simp_all
next
  assume "faults wr = replicate nr False @ True # fr \<and> nr \<le> 3 \<and>
    r_password cr = r_confirmPassword cr \<and> 6 \<le> length (r_password cr) \<and>
    users_or_empty (disk wr USERS_STORAGE_KEY) = Inr usersr \<and>
    find (same_email lc (r_email cr)) usersr = None"
  then have "fst (register lc cr wr) = Inl StorageError \<and>
      notices (snd (register lc cr wr))
        = notices wr @ [AlertError ''Registration Failed'' StorageError] \<and>
      user (authState (snd (register lc cr wr))) = user (authState wr) \<and>
      isAuthenticated (authState (snd (register lc cr wr))) = isAuthenticated (authState wr) \<and>
      disk (snd (register lc cr wr)) =
        (if nr \<le> 1 then disk wr
         else if nr = 2
         then (disk wr)(USERS_STORAGE_KEY \<mapsto> UsersJson (usersr @ [new_user lc cr wr]))
         else (disk wr)(USERS_STORAGE_KEY \<mapsto> UsersJson (usersr @ [new_user lc cr wr]),
                        password_key (u_id (new_user lc cr wr)) \<mapsto> Raw (r_password cr)))"
    by (elim conjE) (rule register_rejected, assumption+)
  then show "fst (register lc cr wr) = Inl StorageError"
    "notices (snd (register lc cr wr))
        = notices wr @ [AlertError ''Registration Failed'' StorageError]"
    "user (authState (snd (register lc cr wr))) = user (authState wr)"
    "isAuthenticated (authState (snd (register lc cr wr))) = isAuthenticated (authState wr)"
    "disk (snd (register lc cr wr)) =
        (if nr \<le> 1 then disk wr
         else if nr = 2
         then (disk wr)(USERS_STORAGE_KEY \<mapsto> UsersJson (usersr @ [new_user lc cr wr]))
         else (disk wr)(USERS_STORAGE_KEY \<mapsto> UsersJson (usersr @ [new_user lc cr wr]),
                        password_key (u_id (new_user lc cr wr)) \<mapsto> Raw (r_password cr)))"
    by simp_all
next
  assume "faults wu = replicate nu False @ True # fu \<and> nu \<le> 2 \<and>
    user (authState wu) = Some current \<and>
    users_or_empty (disk wu USERS_STORAGE_KEY) = Inr usersu \<and>
    findIndex (\<lambda>u. u_id u = u_id current) usersu = Some i"
  then have "fst (updateUser p wu) = Inr () \<and>
      notices (snd (updateUser p wu))
        = notices wu @ [AlertText ''Error'' ''Failed to update profile''] \<and>
      authState (snd (updateUser p wu)) = authState wu \<and>
      disk (snd (updateUser p wu)) =
        (if nu = 0 then disk wu
         else (disk wu)(AUTH_STORAGE_KEY \<mapsto> UserJson (merge_user current p)))"
    by (elim conjE) (rule updateUser_rejected, assumption+)
  then show "fst (updateUser p wu) = Inr ()"
    "notices (snd (updateUser p wu))
        = notices wu @ [AlertText ''Error'' ''Failed to update profile'']"
    "authState (snd (updateUser p wu)) = authState wu"
    "disk (snd (updateUser p wu)) =
        (if nu = 0 then disk wu
         else (disk wu)(AUTH_STORAGE_KEY \<mapsto> UserJson (merge_user current p)))"
    by simp_all
qed

lemmas auth_eval_defs = register_def register_try_def login_def login_try_def updateUser_def
  try_catch_def await_def throw_def resolve_def liftE_def dispatch_def show_notice_def
  getItem_def setItem_def removeItem_def next_call_def users_or_empty_def

theorem storage_failure_effects_witness:
  "faults (third_call_rejects ann_installed) = replicate 2 False @ True # [] \<and>
   fst (login ascii_toLowerCase ann_login (third_call_rejects ann_installed)) = Inl StorageError \<and>
   disk (snd (login ascii_toLowerCase ann_login (third_call_rejects ann_installed)))
     = disk ann_installed \<and>
   faults (second_call_rejects fresh_install) = replicate 1 False @ True # [] \<and>
   fst (toggleWatchlist_at (js ''watchlist'') 42 details42 (js ''X'') False
         (second_call_rejects fresh_install)) = False \<and>
   disk (snd (toggleWatchlist_at (js ''watchlist'') 42 details42 (js ''X'') False
           (second_call_rejects fresh_install))) = disk fresh_install \<and>
   fst (register ascii_toLowerCase ann_signup (third_call_rejects fresh_install))
     = Inl StorageError \<and>
   disk (snd (register ascii_toLowerCase ann_signup (third_call_rejects fresh_install)))
     = (disk fresh_install)(USERS_STORAGE_KEY \<mapsto>
          UsersJson [new_user ascii_toLowerCase ann_signup fresh_install]) \<and>
   fst (updateUser rename_to_anna (third_call_rejects ann_signed_in)) = Inr () \<and>
   notices (snd (updateUser rename_to_anna (third_call_rejects ann_signed_in)))
     = [AlertText ''Error'' ''Failed to update profile''] \<and>
   disk (snd (updateUser rename_to_anna (third_call_rejects ann_signed_in)))
     = (disk ann_signed_in)(AUTH_STORAGE_KEY \<mapsto> UserJson (merge_user ann rename_to_anna))"
proof -
  have f3: "faults (third_call_rejects w) = replicate 2 False @ True # []" for w
    by (simp add: third_call_rejects_def numeral_2_eq_2)
  have f2: "faults (second_call_rejects w) = replicate 1 False @ True # []" for w
    by (simp add: second_call_rejects_def)
  have d: "disk (third_call_rejects w) = disk w" "disk (second_call_rejects w) = disk w"
    "authState (third_call_rejects w) = authState w" "notices (third_call_rejects w) = notices w"
    "now (third_call_rejects w) = now w" "now_iso (third_call_rejects w) = now_iso w" for w
    by (simp_all add: third_call_rejects_def second_call_rejects_def)
  have l: "users_or_empty (disk (third_call_rejects ann_installed) USERS_STORAGE_KEY) = Inr [ann]"
    "find (same_email ascii_toLowerCase (l_email ann_login)) [ann] = Some ann"
    "disk (third_call_rejects ann_installed) (password_key (u_id ann))
       = Some (Raw (l_password ann_login))"
    by (simp_all add: d ann_installed_def fresh_install_def same_email_def ann_login_def ann_def
        lower_test2)
  have t: "items_or_empty (disk (second_call_rejects fresh_install) (js ''watchlist'')) = Inr []"
    by (simp add: d fresh_install_def)
  have r: "r_password ann_signup = r_confirmPassword ann_signup"
    "6 \<le> length (r_password ann_signup)"
    "users_or_empty (disk (third_call_rejects fresh_install) USERS_STORAGE_KEY) = Inr []"
    "find (same_email ascii_toLowerCase (r_email ann_signup)) [] = None"
    by (simp_all add: d ann_signup_def fresh_install_def users_or_empty_def)
  have u: "user (authState (third_call_rejects ann_signed_in)) = Some ann"
    "users_or_empty (disk (third_call_rejects ann_signed_in) USERS_STORAGE_KEY) = Inr [ann]"
    "findIndex (\<lambda>u. u_id u = u_id ann) [ann] = Some 0"
    "notices ann_signed_in = []"
    by (simp_all add: d ann_signed_in_def ann_installed_def fresh_install_def)
  have nw: "new_user ascii_toLowerCase ann_signup (third_call_rejects fresh_install)
      = new_user ascii_toLowerCase ann_signup fresh_install"
    by (simp add: new_user_def d)
  from storage_failure_effects [of "third_call_rejects ann_installed" 2 "[]" "[ann]"
      ascii_toLowerCase ann_login ann
      "second_call_rejects fresh_install" 1 "[]" "js ''watchlist''" "[]" 42 details42 "js ''X''" False
      "third_call_rejects fresh_install" 2 "[]" ann_signup "[]"
      "third_call_rejects ann_signed_in" 2 "[]" ann "[ann]" 0 rename_to_anna]
    f3 f2 l t r u
  show ?thesis by (simp add: d nw)
qed

text \<open>
  The claim as stated fails for \<open>register\<close> and \<open>updateUser\<close>: when the third storage
  call rejects, the registry holds the new user while the credential and the session
  slot are absent, respectively the session slot holds the renamed user while the
  registry holds the old one.
\<close>

theorem partial_write_counterexample:
  "fst (register ascii_toLowerCase ann_signup (third_call_rejects fresh_install))
     = Inl StorageError \<and>
   disk fresh_install USERS_STORAGE_KEY = None \<and>
   disk (snd (register ascii_toLowerCase ann_signup (third_call_rejects fresh_install)))
     USERS_STORAGE_KEY
     = Some (UsersJson [new_user ascii_toLowerCase ann_signup fresh_install]) \<and>
   disk (snd (register ascii_toLowerCase ann_signup (third_call_rejects fresh_install)))
     (password_key (u_id (new_user ascii_toLowerCase ann_signup fresh_install))) = None \<and>
   disk (snd (register ascii_toLowerCase ann_signup (third_call_rejects fresh_install)))
     AUTH_STORAGE_KEY = None \<and>
   fst (updateUser rename_to_anna (third_call_rejects ann_signed_in)) = Inr () \<and>
   disk (snd (updateUser rename_to_anna (third_call_rejects ann_signed_in))) AUTH_STORAGE_KEY
     = Some (UserJson (ann\<lparr>u_name := js ''Anna''\<rparr>)) \<and>
   disk (snd (updateUser rename_to_anna (third_call_rejects ann_signed_in))) USERS_STORAGE_KEY
     = Some (UsersJson [ann])"
  by (simp add: auth_eval_defs third_call_rejects_def fresh_install_def ann_signup_def new_user_def
      Let_def ann_signed_in_def ann_installed_def rename_to_anna_def merge_user_def ann_def)

end
